theory Spec2Isabelle
  imports Main "HOL-Library.Sublist"
begin

section \<open>Python values and strings\<close>

text \<open>
  The values that travel through \<^verbatim>\<open>main.py\<close> as \<^verbatim>\<open>Dict\<close>, \<^verbatim>\<open>Optional[Dict]\<close> or
  \<^verbatim>\<open>Any\<close> are JSON-shaped. \<open>PyNone\<close> is Python's \<^verbatim>\<open>None\<close>; a dict is an association
  list of its items.
\<close>

datatype pyval =
    PyNone
  | PyBool bool
  | PyInt int
  | PyStr string
  | PyList "pyval list"
  | PyDict "(string \<times> pyval) list"

text \<open>Truth value testing, as \<^verbatim>\<open>if extracted_data:\<close> and \<^verbatim>\<open>if not extracted_data:\<close> use it.\<close>

fun truthy :: "pyval \<Rightarrow> bool" where
  "truthy PyNone = False"
| "truthy (PyBool b) = b"
| "truthy (PyInt n) = (n \<noteq> 0)"
| "truthy (PyStr s) = (s \<noteq> [])"
| "truthy (PyList xs) = (xs \<noteq> [])"
| "truthy (PyDict kvs) = (kvs \<noteq> [])"

text \<open>\<^verbatim>\<open>d.get(k, default)\<close> on a \<^verbatim>\<open>Dict[str, str]\<close>.\<close>

definition dget :: "(string \<rightharpoonup> string) \<Rightarrow> string \<Rightarrow> string \<Rightarrow> string" where
  "dget d k dflt = (case d k of None \<Rightarrow> dflt | Some v \<Rightarrow> v)"

text \<open>
  A Python \<^verbatim>\<open>str\<close> is modelled as a list of 8-bit characters read as the code points
  U+0000 to U+00FF. \<open>isalnum\<close> and \<open>isspace\<close> are \<^verbatim>\<open>str.isalnum\<close> and \<^verbatim>\<open>str.isspace\<close>
  on that range: besides the ASCII letters and digits, \<^verbatim>\<open>isalnum\<close> holds of the Latin-1
  letters, the superscript digits and the vulgar fractions; \<^verbatim>\<open>isspace\<close> holds of
  TAB..CR, FS..US, the blank, NEL and the no-break space.
\<close>

definition isalnum :: "char \<Rightarrow> bool" where
  "isalnum c =
     (let n = (of_char c :: nat)
      in (48 \<le> n \<and> n \<le> 57) \<or> (65 \<le> n \<and> n \<le> 90) \<or> (97 \<le> n \<and> n \<le> 122)
         \<or> n \<in> {170, 178, 179, 181, 185, 186, 188, 189, 190}
         \<or> (192 \<le> n \<and> n \<le> 214) \<or> (216 \<le> n \<and> n \<le> 246) \<or> 248 \<le> n)"

definition isspace :: "char \<Rightarrow> bool" where
  "isspace c =
     (let n = (of_char c :: nat)
      in (9 \<le> n \<and> n \<le> 13) \<or> (28 \<le> n \<and> n \<le> 32) \<or> n = 133 \<or> n = 160)"

text \<open>\<^verbatim>\<open>s.rstrip()\<close>: drop the trailing whitespace.\<close>

definition rstrip :: "string \<Rightarrow> string" where
  "rstrip s = rev (dropWhile isspace (rev s))"

text \<open>
  Lines 517-518 of \<^verbatim>\<open>main.py\<close>:
  \<^verbatim>\<open>"".join(c for c in x if c.isalnum() or c in (' ', '-', '_')).rstrip()\<close>
\<close>

definition keep_char :: "char \<Rightarrow> bool" where
  "keep_char c = (isalnum c \<or> c \<in> {CHR '' '', CHR ''-'', CHR ''_''})"

definition sanitize :: "string \<Rightarrow> string" where
  "sanitize s = rstrip (filter keep_char s)"

text \<open>\<^verbatim>\<open>str(i)\<close> of a non-negative \<^verbatim>\<open>int\<close>, as the f-strings format it.\<close>

definition digit_char :: "nat \<Rightarrow> char" where
  "digit_char d = ''0123456789'' ! d"

fun str_nat :: "nat \<Rightarrow> string" where
  "str_nat n = (if n < 10 then [digit_char n] else str_nat (n div 10) @ [digit_char (n mod 10)])"

declare str_nat.simps [simp del]

text \<open>Line 519: \<^verbatim>\<open>f"{resume_id}_{safe_company}_{safe_title}_{i}"\<close>.\<close>

definition base_filename :: "string \<Rightarrow> string \<Rightarrow> string \<Rightarrow> nat \<Rightarrow> string" where
  "base_filename resume_id safe_company safe_title i =
     resume_id @ ''_'' @ safe_company @ ''_'' @ safe_title @ ''_'' @ str_nat i"

text \<open>The base filename of subjob \<open>i\<close>, from its job description (lines 517-519).\<close>

definition job_base_filename :: "string \<Rightarrow> (string \<rightharpoonup> string) \<Rightarrow> nat \<Rightarrow> string" where
  "job_base_filename resume_id job_desc_data i =
     base_filename resume_id
       (sanitize (dget job_desc_data ''company'' ''Unknown''))
       (sanitize (dget job_desc_data ''title'' ''Unknown'')) i"

text \<open>
  \<^verbatim>\<open>s.replace(old, '')\<close>: every non-overlapping occurrence of \<open>old\<close>, from the left, is
  deleted. (The source only calls it with \<open>old = '.json'\<close>; with an empty \<open>old\<close> and an
  empty replacement Python returns \<open>s\<close>.)
\<close>

function str_remove :: "string \<Rightarrow> string \<Rightarrow> string" where
  "str_remove old [] = []"
| "str_remove old (c # cs) =
     (if old \<noteq> [] \<and> prefix old (c # cs) then str_remove old (drop (length old) (c # cs))
      else c # str_remove old cs)"
  by pat_completeness auto
termination
  by (relation "measure (\<lambda>(old, s). length s)") (auto simp: neq_Nil_conv)

declare str_remove.simps(2) [simp del]

text \<open>\<^verbatim>\<open>str(e)\<close> of a \<^verbatim>\<open>KeyError\<close> is the \<^verbatim>\<open>repr\<close> of the key: the key in single quotes
  (for keys without quotes or escapes, as the uuid strings are).\<close>

definition key_error :: "string \<Rightarrow> string" where
  "key_error k = CHR 0x27 # k @ [CHR 0x27]"

text \<open>\<^verbatim>\<open>str(e)\<close> of Starlette's \<^verbatim>\<open>HTTPException\<close>: \<^verbatim>\<open>f"{status_code}: {detail}"\<close>.\<close>

definition http_exception_str :: "nat \<Rightarrow> string \<Rightarrow> string" where
  "http_exception_str code detail = str_nat code @ '': '' @ detail"


section \<open>Data model\<close>

text \<open>The four status strings \<^verbatim>\<open>"pending"\<close>, \<^verbatim>\<open>"processing"\<close>, \<^verbatim>\<open>"completed"\<close>, \<^verbatim>\<open>"failed"\<close>.\<close>

datatype status = Pending | Processing | Completed | Failed

text \<open>An entry of \<^verbatim>\<open>resume_storage\<close> (lines 176-181).\<close>

record resume_record =
  filename :: string
  file_path :: string
  upload_time :: string
  rr_status :: string

text \<open>An entry of \<^verbatim>\<open>extraction_status\<close> (lines 184-188).\<close>

record extraction_record =
  es_status :: status
  extracted_data :: pyval
  es_error_message :: "string option"

text \<open>An element of \<^verbatim>\<open>individual_jobs\<close> (lines 283-292).\<close>

record subjob =
  job_index :: nat
  job_title :: string
  company :: string
  job_status :: status
  progress_message :: "string option"
  job_error_message :: "string option"
  tailored_resume :: pyval
  download_links :: "(string \<times> string) list option"

text \<open>An entry of \<^verbatim>\<open>tailoring_jobs\<close> (lines 294-301).\<close>

record tailoring_batch =
  tb_resume_id :: string
  job_descriptions :: "(string \<rightharpoonup> string) list"
  tb_status :: status
  individual_jobs :: "subjob list"
  tb_error_message :: "string option"
  created_at :: string

text \<open>
  The process state: the three module-level registries and the two storage directories.
  A file of \<^verbatim>\<open>tailored_resumes/\<close> is represented by the document it holds: for a
  \<^verbatim>\<open>.json\<close> key the dict that \<^verbatim>\<open>json.dump\<close> wrote (and \<^verbatim>\<open>json.load\<close> reads back), for a
  \<^verbatim>\<open>.pdf\<close> key the dict it was rendered from.
\<close>

record sys =
  upload_files :: "string \<rightharpoonup> string"
  tailored_files :: "string \<rightharpoonup> pyval"
  resume_storage :: "string \<rightharpoonup> resume_record"
  extraction_status :: "string \<rightharpoonup> extraction_record"
  tailoring_jobs :: "string \<rightharpoonup> tailoring_batch"

definition init_sys :: sys where
  "init_sys = \<lparr>upload_files = Map.empty, tailored_files = Map.empty,
     resume_storage = Map.empty, extraction_status = Map.empty, tailoring_jobs = Map.empty\<rparr>"

text \<open>\<^verbatim>\<open>raise HTTPException(status_code=..., detail=...)\<close>.\<close>

datatype http_error = HTTPException nat string

datatype upload_response = UploadResponse string string string

datatype extraction_status_response =
  ExtractionStatusResponse string status pyval "string option"

record tailor_request =
  resume_id :: string
  req_job_descriptions :: "(string \<rightharpoonup> string) list"

datatype tailor_response = TailorResponse string string status

text \<open>\<^verbatim>\<open>TailorStatusResponse(task_id, overall_status, total_jobs, completed_jobs,
  failed_jobs, individual_jobs, error_message)\<close>; an \<^verbatim>\<open>IndividualJobStatus\<close> has the fields
  of a \<open>subjob\<close>.\<close>

datatype tailor_status_response =
  TailorStatusResponse string status nat nat nat "subjob list" "string option"

text \<open>\<^verbatim>\<open>FileResponse(path, filename, media_type)\<close>.\<close>

datatype file_response = FileResponse string string string


section \<open>Request handlers\<close>

text \<open>
  A handler takes the process state and returns the new state with either the raised
  \<^verbatim>\<open>HTTPException\<close> or the response. What the handlers obtain from outside the
  program is an argument: the fresh \<^verbatim>\<open>uuid.uuid4()\<close> string, the clock reading
  \<^verbatim>\<open>datetime.now().isoformat()\<close>, what \<^verbatim>\<open>pathlib\<close> computes (the result of
  \<^verbatim>\<open>Path(file.filename).suffix.lower()\<close> and the path \<^verbatim>\<open>UPLOAD_DIR / name\<close> as a string),
  and whether a file write raised.
\<close>

definition allowed_extensions :: "string list" where
  "allowed_extensions = [''.pdf'', ''.docx'', ''.doc'']"

definition allowed_extensions_repr :: string where
  "allowed_extensions_repr =
     ''['' @ CHR 0x27 # ''.pdf'' @ CHR 0x27 # '', '' @ CHR 0x27 # ''.docx'' @ CHR 0x27 # '', ''
       @ CHR 0x27 # ''.doc'' @ CHR 0x27 # '']''"

text \<open>\<^verbatim>\<open>upload_resume\<close> (lines 149-197). \<open>fpath\<close> is
  \<^verbatim>\<open>str(UPLOAD_DIR / f"{resume_id}_{file.filename}")\<close>; \<open>write_error\<close> is \<open>Some e\<close> when reading
  or writing the file raised an exception derived from \<^verbatim>\<open>Exception\<close> with text \<open>e\<close>.\<close>

definition upload_resume ::
  "string \<Rightarrow> string \<Rightarrow> string \<Rightarrow> string \<Rightarrow> string \<Rightarrow> string \<Rightarrow> string option \<Rightarrow> sys
     \<Rightarrow> sys \<times> (http_error + upload_response)" where
  "upload_resume fname file_extension fpath content rid now write_error s =
     (if file_extension \<notin> set allowed_extensions
      then (s, Inl (HTTPException 400
              (''File type '' @ file_extension @ '' not supported. Allowed types: ''
                 @ allowed_extensions_repr)))
      else
        case write_error of
          Some e \<Rightarrow> (s, Inl (HTTPException 500 (''File upload failed: '' @ e)))
        | None \<Rightarrow>
               (s\<lparr>upload_files := (upload_files s)(fpath \<mapsto> content),
                  resume_storage := (resume_storage s)(rid \<mapsto>
                     \<lparr>filename = fname, file_path = fpath, upload_time = now,
                      rr_status = ''uploaded''\<rparr>),
                  extraction_status := (extraction_status s)(rid \<mapsto>
                     \<lparr>es_status = Pending, extracted_data = PyNone,
                      es_error_message = None\<rparr>)\<rparr>,
                Inr (UploadResponse rid fname ''Resume uploaded successfully'')))"

text \<open>\<^verbatim>\<open>extract_resume_data\<close> (lines 199-225). The background task it schedules is
  \<open>perform_extraction\<close> below.\<close>

definition extract_resume_data ::
  "string \<Rightarrow> sys \<Rightarrow> sys \<times> (http_error + extraction_status_response)" where
  "extract_resume_data rid s =
     (if resume_storage s rid = None
      then (s, Inl (HTTPException 404 ''Resume not found''))
      else
        let entry = (case extraction_status s rid of
                       None \<Rightarrow> \<lparr>es_status = Pending, extracted_data = PyNone,
                                 es_error_message = None\<rparr>
                     | Some e \<Rightarrow> e)
        in (s\<lparr>extraction_status :=
                 (extraction_status s)(rid \<mapsto> entry\<lparr>es_status := Processing\<rparr>)\<rparr>,
            Inr (ExtractionStatusResponse rid Processing PyNone None)))"

text \<open>\<^verbatim>\<open>get_extraction_status\<close> (lines 227-242).\<close>

definition get_extraction_status ::
  "string \<Rightarrow> sys \<Rightarrow> sys \<times> (http_error + extraction_status_response)" where
  "get_extraction_status rid s =
     (case extraction_status s rid of
        None \<Rightarrow> (s, Inl (HTTPException 404 ''Extraction status not found''))
      | Some e \<Rightarrow>
          (s, Inr (ExtractionStatusResponse rid (es_status e) (extracted_data e)
                     (es_error_message e))))"

text \<open>\<^verbatim>\<open>update_resume_data\<close> (lines 244-257); the body is a \<^verbatim>\<open>Dict[str, Any]\<close>.\<close>

definition update_resume_data ::
  "string \<Rightarrow> (string \<times> pyval) list \<Rightarrow> sys \<Rightarrow> sys \<times> (http_error + string)" where
  "update_resume_data rid updated_data s =
     (case extraction_status s rid of
        None \<Rightarrow> (s, Inl (HTTPException 404 ''Resume not found''))
      | Some e \<Rightarrow>
          if es_status e \<noteq> Completed
          then (s, Inl (HTTPException 400 ''Resume extraction not complete, cannot update.''))
          else (s\<lparr>extraction_status :=
                     (extraction_status s)(rid \<mapsto> e\<lparr>extracted_data := PyDict updated_data\<rparr>)\<rparr>,
                Inr ''Resume data updated successfully''))"

text \<open>The subjob record that lines 283-292 build for position \<open>i\<close>.\<close>

definition new_subjob :: "nat \<Rightarrow> (string \<rightharpoonup> string) \<Rightarrow> subjob" where
  "new_subjob i job_desc =
     \<lparr>job_index = i,
      job_title = dget job_desc ''title'' ''Unknown Title'',
      company = dget job_desc ''company'' ''Unknown Company'',
      job_status = Pending,
      progress_message = None,
      job_error_message = None,
      tailored_resume = PyNone,
      download_links = None\<rparr>"

text \<open>\<^verbatim>\<open>tailor_resume\<close> (lines 259-310), the submit operation. The background task it
  schedules is \<open>perform_tailoring\<close> below.\<close>

definition tailor_resume ::
  "tailor_request \<Rightarrow> string \<Rightarrow> string \<Rightarrow> sys \<Rightarrow> sys \<times> (http_error + tailor_response)" where
  "tailor_resume request task_id now s =
     (if resume_storage s (resume_id request) = None
      then (s, Inl (HTTPException 404 ''Resume not found''))
      else case extraction_status s (resume_id request) of
        None \<Rightarrow> (s, Inl (HTTPException 400 ''Resume not extracted yet''))
      | Some e \<Rightarrow>
          if es_status e \<noteq> Completed
          then (s, Inl (HTTPException 400 ''Resume extraction not completed''))
          else if \<not> truthy (extracted_data e)
          then (s, Inl (HTTPException 400 ''No extracted resume data available''))
          else
            (s\<lparr>tailoring_jobs := (tailoring_jobs s)(task_id \<mapsto>
                 \<lparr>tb_resume_id = resume_id request,
                  job_descriptions = req_job_descriptions request,
                  tb_status = Pending,
                  individual_jobs =
                    map (\<lambda>(i, job_desc). new_subjob i job_desc)
                      (enumerate 0 (req_job_descriptions request)),
                  tb_error_message = None,
                  created_at = now\<rparr>)\<rparr>,
             Inr (TailorResponse task_id ''Resume tailoring started'' Processing)))"

text \<open>\<^verbatim>\<open>get_tailoring_status\<close> (lines 312-349).\<close>

definition get_tailoring_status ::
  "string \<Rightarrow> sys \<Rightarrow> sys \<times> (http_error + tailor_status_response)" where
  "get_tailoring_status task_id s =
     (case tailoring_jobs s task_id of
        None \<Rightarrow> (s, Inl (HTTPException 404 ''Tailoring task not found''))
      | Some job_data \<Rightarrow>
          let completed_jobs =
                length (filter (\<lambda>job. job_status job = Completed) (individual_jobs job_data));
              failed_jobs =
                length (filter (\<lambda>job. job_status job = Failed) (individual_jobs job_data))
          in (s, Inr (TailorStatusResponse task_id (tb_status job_data)
                        (length (job_descriptions job_data)) completed_jobs failed_jobs
                        (individual_jobs job_data) (tb_error_message job_data))))"

text \<open>
  \<^verbatim>\<open>download_tailored_resume_pdf\<close> (lines 375-415). \<open>pdf_generated\<close> is what
  \<^verbatim>\<open>pdf_generator.generate_pdf\<close> returns when it is called (it catches every exception
  and returns \<^verbatim>\<open>False\<close>). The \<^verbatim>\<open>HTTPException\<close> raised at line 410 is caught by the
  \<^verbatim>\<open>except Exception\<close> of line 412 and raised again with its text in the detail.
\<close>

definition download_tailored_resume_pdf ::
  "string \<Rightarrow> bool \<Rightarrow> sys \<Rightarrow> sys \<times> (http_error + file_response)" where
  "download_tailored_resume_pdf file_key pdf_generated s =
     (let base_name = str_remove ''.json'' file_key;
          pdf_file_key = base_name @ ''.pdf'';
          json_file_key = base_name @ ''.json''
      in if tailored_files s pdf_file_key \<noteq> None
         then (s, Inr (FileResponse (''tailored_resumes/'' @ pdf_file_key) pdf_file_key
                         ''application/pdf''))
         else case tailored_files s json_file_key of
           Some resume_data \<Rightarrow>
             if pdf_generated
             then (s\<lparr>tailored_files := (tailored_files s)(pdf_file_key \<mapsto> resume_data)\<rparr>,
                   Inr (FileResponse (''tailored_resumes/'' @ pdf_file_key) pdf_file_key
                          ''application/pdf''))
             else (s, Inl (HTTPException 500
                     (''Error generating PDF: ''
                        @ http_exception_str 500 ''Failed to generate PDF'')))
         | None \<Rightarrow> (s, Inl (HTTPException 404 ''Resume file not found'')))"


section \<open>Background tasks\<close>

text \<open>
  A raised exception. The code uses its text \<^verbatim>\<open>str(e)\<close> and, in its handlers
  \<^verbatim>\<open>except Exception\<close>, its class: \<open>PyException\<close> is an exception derived from
  \<^verbatim>\<open>Exception\<close>, \<open>PyBaseException\<close> one that is not (\<^verbatim>\<open>asyncio.CancelledError\<close> raised at
  an \<^verbatim>\<open>await\<close>, \<^verbatim>\<open>KeyboardInterrupt\<close>, \<^verbatim>\<open>SystemExit\<close>).
\<close>

datatype exn = PyException string | PyBaseException string

text \<open>What an awaited collaborator call does: it returns a value or raises.\<close>

datatype 'a outcome = Returns 'a | Raises exn

text \<open>\<^verbatim>\<open>isinstance(d, dict) and d.get("error") == "api_key_invalid"\<close> (line 432).\<close>

fun is_api_key_error :: "pyval \<Rightarrow> bool" where
  "is_api_key_error (PyDict kvs) = (map_of kvs ''error'' = Some (PyStr ''api_key_invalid''))"
| "is_api_key_error _ = False"

text \<open>\<^verbatim>\<open>d.get(k, default)\<close> on a dict value.\<close>

fun pyget :: "pyval \<Rightarrow> string \<Rightarrow> pyval \<Rightarrow> pyval" where
  "pyget (PyDict kvs) k dflt = (case map_of kvs k of None \<Rightarrow> dflt | Some v \<Rightarrow> v)"
| "pyget _ k dflt = dflt"

text \<open>
  \<^verbatim>\<open>perform_extraction\<close> (lines 419-456). \<open>parsed\<close> is the outcome of
  \<^verbatim>\<open>await parse_resume_raw_json(file_path)\<close>; \<open>py_str\<close> is Python's formatting of a
  value inside an f-string. An exception that is not derived from \<^verbatim>\<open>Exception\<close> passes
  the handler of line 451 and leaves the task: nothing is written.
\<close>

definition perform_extraction ::
  "(pyval \<Rightarrow> string) \<Rightarrow> string \<Rightarrow> pyval outcome \<Rightarrow> sys \<Rightarrow> sys" where
  "perform_extraction py_str rid parsed s =
     (let failed = (\<lambda>msg. s\<lparr>extraction_status := (extraction_status s)(rid \<mapsto>
                       \<lparr>es_status = Failed, extracted_data = PyNone,
                        es_error_message = Some msg\<rparr>)\<rparr>)
      in case resume_storage s rid of
           None \<Rightarrow> failed (key_error rid)
         | Some resume_data \<Rightarrow>
             (case parsed of
                Raises (PyException e) \<Rightarrow> failed e
              | Raises (PyBaseException e) \<Rightarrow> s
              | Returns data \<Rightarrow>
                  if truthy data
                  then if is_api_key_error data
                       then failed (''API Key Error: ''
                              @ py_str (pyget data ''error_message''
                                          (PyStr ''Invalid or missing API key'')))
                       else s\<lparr>extraction_status := (extraction_status s)(rid \<mapsto>
                              \<lparr>es_status = Completed, extracted_data = data,
                               es_error_message = None\<rparr>)\<rparr>
                  else failed ''Failed to extract resume data''))"

subsection \<open>Statements that may raise\<close>

text \<open>
  A block of the worker is a function from the state to the state it leaves and, when it
  raised, the exception. The state is kept on a \<^verbatim>\<open>raise\<close>: the writes made before it
  stay.
\<close>

type_synonym stmt = "sys \<Rightarrow> sys \<times> exn option"

definition raise :: "exn \<Rightarrow> stmt" where
  "raise e s = (s, Some e)"

definition seq :: "stmt \<Rightarrow> stmt \<Rightarrow> stmt" where
  "seq p q s = (case p s of (s', None) \<Rightarrow> q s' | (s', Some e) \<Rightarrow> (s', Some e))"

text \<open>\<^verbatim>\<open>try: body  except Exception as e: handler\<close>, the handler using \<^verbatim>\<open>str(e)\<close>: an
  exception that is not derived from \<^verbatim>\<open>Exception\<close> is not caught.\<close>

definition try_except :: "stmt \<Rightarrow> (string \<Rightarrow> stmt) \<Rightarrow> stmt" where
  "try_except body handler s =
     (case body s of
        (s', None) \<Rightarrow> (s', None)
      | (s', Some (PyException e)) \<Rightarrow> handler e s'
      | (s', Some (PyBaseException e)) \<Rightarrow> (s', Some (PyBaseException e)))"

fun for_each :: "'a list \<Rightarrow> ('a \<Rightarrow> stmt) \<Rightarrow> stmt" where
  "for_each [] body s = (s, None)"
| "for_each (x # xs) body s =
     (case body x s of (s', None) \<Rightarrow> for_each xs body s' | (s', Some e) \<Rightarrow> (s', Some e))"

text \<open>\<^verbatim>\<open>tailoring_jobs[task_id]["individual_jobs"][i]\<close> assigned or updated in place: a
  \<^verbatim>\<open>KeyError\<close> for an unknown task, an \<^verbatim>\<open>IndexError\<close> out of range.\<close>

definition set_job :: "string \<Rightarrow> nat \<Rightarrow> (subjob \<Rightarrow> subjob) \<Rightarrow> stmt" where
  "set_job task_id i f s =
     (case tailoring_jobs s task_id of
        None \<Rightarrow> (s, Some (PyException (key_error task_id)))
      | Some b \<Rightarrow>
          if i < length (individual_jobs b)
          then (s\<lparr>tailoring_jobs := (tailoring_jobs s)(task_id \<mapsto>
                    b\<lparr>individual_jobs := (individual_jobs b)[i := f (individual_jobs b ! i)]\<rparr>)\<rparr>,
                None)
          else (s, Some (PyException ''list index out of range'')))"

text \<open>\<^verbatim>\<open>tailoring_jobs[task_id][...] = ...\<close> and \<^verbatim>\<open>tailoring_jobs[task_id].update(...)\<close>.\<close>

definition set_batch :: "string \<Rightarrow> (tailoring_batch \<Rightarrow> tailoring_batch) \<Rightarrow> stmt" where
  "set_batch task_id f s =
     (case tailoring_jobs s task_id of
        None \<Rightarrow> (s, Some (PyException (key_error task_id)))
      | Some b \<Rightarrow> (s\<lparr>tailoring_jobs := (tailoring_jobs s)(task_id \<mapsto> f b)\<rparr>, None))"

definition set_progress :: "string \<Rightarrow> nat \<Rightarrow> string \<Rightarrow> stmt" where
  "set_progress task_id i msg = set_job task_id i (\<lambda>job. job\<lparr>progress_message := Some msg\<rparr>)"

text \<open>The two \<^verbatim>\<open>.update({...})\<close> dicts of a failed subjob (lines 558-564 and 569-575).\<close>

definition mark_failed :: "string \<Rightarrow> subjob \<Rightarrow> subjob" where
  "mark_failed msg job =
     job\<lparr>job_status := Failed, progress_message := None, tailored_resume := PyNone,
         download_links := None, job_error_message := Some msg\<rparr>"

text \<open>The download links of lines 542-545.\<close>

definition make_download_links :: "string \<Rightarrow> string \<Rightarrow> bool \<Rightarrow> (string \<times> string) list" where
  "make_download_links json_filename pdf_filename pdf_generated =
     [(''json'', ''/api/download/'' @ json_filename),
      (''pdf'', if pdf_generated then ''/api/download/'' @ pdf_filename
                else ''/api/download/'' @ json_filename @ ''/pdf'')]"

text \<open>The \<^verbatim>\<open>.update({...})\<close> dict of a completed subjob (lines 548-554).\<close>

definition mark_completed :: "pyval \<Rightarrow> (string \<times> string) list \<Rightarrow> subjob \<Rightarrow> subjob" where
  "mark_completed tailored_dict links job =
     job\<lparr>job_status := Completed, progress_message := Some ''Resume tailored successfully!'',
         tailored_resume := tailored_dict, download_links := Some links,
         job_error_message := None\<rparr>"

text \<open>
  What the collaborators do for one subjob: \<open>ai_result\<close> is the outcome of
  \<^verbatim>\<open>await tailor_resume_with_ai(resume_data, job_context)\<close> (\<open>Returns None\<close> for
  \<^verbatim>\<open>None\<close>, \<open>Returns (Some d)\<close> for a \<^verbatim>\<open>TailoredResume\<close> whose \<^verbatim>\<open>model_dump()\<close> is
  the dict \<open>d\<close>); \<open>json_write_error\<close> is \<open>Some e\<close> when opening or writing the
  \<^verbatim>\<open>.json\<close> file raises (no file is left then); \<open>pdf_generated\<close> is what
  \<^verbatim>\<open>pdf_generator.generate_pdf\<close> returns, the \<^verbatim>\<open>.pdf\<close> file being written when it is
  \<^verbatim>\<open>True\<close>.
\<close>

record job_env =
  ai_result :: "(string \<times> pyval) list option outcome"
  json_write_error :: "exn option"
  pdf_generated :: bool

definition write_json :: "string \<Rightarrow> pyval \<Rightarrow> exn option \<Rightarrow> stmt" where
  "write_json json_filename tailored_dict err s =
     (case err of
        Some e \<Rightarrow> (s, Some e)
      | None \<Rightarrow> (s\<lparr>tailored_files := (tailored_files s)(json_filename \<mapsto> tailored_dict)\<rparr>, None))"

definition generate_pdf :: "string \<Rightarrow> pyval \<Rightarrow> bool \<Rightarrow> stmt" where
  "generate_pdf pdf_filename tailored_dict ok s =
     (if ok then (s\<lparr>tailored_files := (tailored_files s)(pdf_filename \<mapsto> tailored_dict)\<rparr>, None)
      else (s, None))"

text \<open>Lines 476-501 of the loop body, up to the \<^verbatim>\<open>await\<close>. (The \<^verbatim>\<open>job_context\<close> dict
  built there is only passed to the collaborator.)\<close>

definition job_begin :: "string \<Rightarrow> nat \<Rightarrow> stmt" where
  "job_begin task_id i =
     seq (set_job task_id i (\<lambda>job. job\<lparr>job_status := Processing\<rparr>))
    (seq (set_progress task_id i ''Starting resume tailoring...'')
         (set_progress task_id i ''Tailoring resume with AI...''))"

text \<open>Lines 504-564 of the loop body, from the collaborator's answer on.\<close>

definition job_complete ::
  "string \<Rightarrow> string \<Rightarrow> nat \<Rightarrow> (string \<rightharpoonup> string) \<Rightarrow> job_env \<Rightarrow> stmt" where
  "job_complete task_id rid i job_desc_data env =
     (case ai_result env of
        Raises e \<Rightarrow> raise e
      | Returns None \<Rightarrow>
          set_job task_id i (mark_failed ''Failed to generate tailored content'')
      | Returns (Some dumped) \<Rightarrow>
          (let tailored_dict = PyDict dumped;
               base = job_base_filename rid job_desc_data i;
               json_filename = base @ ''.json'';
               pdf_filename = base @ ''.pdf''
           in seq (set_progress task_id i ''Converting to dictionary format...'')
             (seq (set_progress task_id i ''Generating filenames...'')
             (seq (set_progress task_id i ''Saving JSON file...'')
             (seq (write_json json_filename tailored_dict (json_write_error env))
             (seq (set_progress task_id i ''Generating PDF...'')
             (seq (generate_pdf pdf_filename tailored_dict (pdf_generated env))
             (seq (set_progress task_id i ''Creating download links...'')
                  (set_job task_id i
                     (mark_completed tailored_dict
                        (make_download_links json_filename pdf_filename
                           (pdf_generated env))))))))))))"

text \<open>The \<^verbatim>\<open>except Exception as e\<close> of lines 566-576.\<close>

definition job_except :: "string \<Rightarrow> nat \<Rightarrow> string \<Rightarrow> stmt" where
  "job_except task_id i e = set_job task_id i (mark_failed e)"

text \<open>One iteration of the loop of line 474.\<close>

definition process_job ::
  "string \<Rightarrow> string \<Rightarrow> nat \<Rightarrow> (string \<rightharpoonup> string) \<Rightarrow> job_env \<Rightarrow> stmt" where
  "process_job task_id rid i job_desc_data env =
     try_except (seq (job_begin task_id i) (job_complete task_id rid i job_desc_data env))
       (job_except task_id i)"

text \<open>
  \<^verbatim>\<open>f"{completed_count} out of {total_count} jobs completed successfully.
  {failed_count} jobs failed."\<close> (line 591).
\<close>

definition partial_failure_message :: "nat \<Rightarrow> nat \<Rightarrow> nat \<Rightarrow> string" where
  "partial_failure_message completed_count total_count failed_count =
     str_nat completed_count @ '' out of '' @ str_nat total_count
       @ '' jobs completed successfully. '' @ str_nat failed_count @ '' jobs failed.''"

text \<open>Lines 578-595: the overall completion status.\<close>

definition check_completion :: "string \<Rightarrow> stmt" where
  "check_completion task_id s =
     (case tailoring_jobs s task_id of
        None \<Rightarrow> (s, Some (PyException (key_error task_id)))
      | Some b \<Rightarrow>
          let completed_count =
                length (filter (\<lambda>job. job_status job = Completed) (individual_jobs b));
              failed_count =
                length (filter (\<lambda>job. job_status job = Failed) (individual_jobs b));
              total_count = length (individual_jobs b)
          in if completed_count > 0
             then if completed_count = total_count
                  then set_batch task_id (\<lambda>b. b\<lparr>tb_status := Completed\<rparr>) s
                  else seq (set_batch task_id (\<lambda>b. b\<lparr>tb_status := Completed\<rparr>))
                           (set_batch task_id (\<lambda>b. b\<lparr>tb_error_message :=
                              Some (partial_failure_message completed_count total_count
                                      failed_count)\<rparr>)) s
             else seq (set_batch task_id (\<lambda>b. b\<lparr>tb_status := Failed\<rparr>))
                      (set_batch task_id (\<lambda>b. b\<lparr>tb_error_message :=
                         Some ''All jobs failed to process''\<rparr>)) s)"

text \<open>The \<^verbatim>\<open>except Exception as e\<close> of lines 597-601.\<close>

definition batch_except :: "string \<Rightarrow> string \<Rightarrow> stmt" where
  "batch_except task_id e =
     set_batch task_id (\<lambda>b. b\<lparr>tb_status := Failed, tb_error_message := Some e\<rparr>)"

text \<open>The loop of lines 474-576 over \<^verbatim>\<open>enumerate(job_descriptions)\<close>; \<open>env i\<close> is what
  the collaborators do for subjob \<open>i\<close>.\<close>

definition tailoring_loop ::
  "string \<Rightarrow> string \<Rightarrow> (string \<rightharpoonup> string) list \<Rightarrow> (nat \<Rightarrow> job_env) \<Rightarrow> stmt" where
  "tailoring_loop task_id rid job_descs env =
     for_each (enumerate 0 job_descs)
       (\<lambda>(i, job_desc_data). process_job task_id rid i job_desc_data (env i))"

text \<open>
  \<^verbatim>\<open>perform_tailoring\<close> (lines 458-601). The second component of the result is \<open>None\<close>
  when the task returns, and the exception that leaves it otherwise: one that is not
  derived from \<^verbatim>\<open>Exception\<close>, which neither handler catches, or a \<^verbatim>\<open>KeyError\<close> raised by
  the last handler itself.
\<close>

definition perform_tailoring_body :: "string \<Rightarrow> (nat \<Rightarrow> job_env) \<Rightarrow> stmt" where
  "perform_tailoring_body task_id env s =
     (case tailoring_jobs s task_id of
        None \<Rightarrow> (s, Some (PyException (key_error task_id)))
      | Some job_data \<Rightarrow>
          seq (set_batch task_id (\<lambda>b. b\<lparr>tb_status := Processing\<rparr>))
              (\<lambda>s'. case extraction_status s' (tb_resume_id job_data) of
                       None \<Rightarrow> (s', Some (PyException (key_error (tb_resume_id job_data))))
                     | Some e \<Rightarrow>
                         seq (tailoring_loop task_id (tb_resume_id job_data)
                                (job_descriptions job_data) env)
                             (check_completion task_id) s') s)"

definition perform_tailoring :: "string \<Rightarrow> (nat \<Rightarrow> job_env) \<Rightarrow> stmt" where
  "perform_tailoring task_id env =
     try_except (perform_tailoring_body task_id env) (batch_except task_id)"


section \<open>Runs of the server\<close>

text \<open>
  The worker is a coroutine: the request handlers can run at its one \<^verbatim>\<open>await\<close> (line
  504) and before it starts. Its blocks between these points, each inside the two
  \<^verbatim>\<open>try\<close> statements that enclose it:
\<close>

text \<open>Lines 463-471.\<close>

definition worker_start :: "string \<Rightarrow> stmt" where
  "worker_start task_id =
     try_except
       (\<lambda>s. case tailoring_jobs s task_id of
              None \<Rightarrow> (s, Some (PyException (key_error task_id)))
            | Some job_data \<Rightarrow>
                seq (set_batch task_id (\<lambda>b. b\<lparr>tb_status := Processing\<rparr>))
                    (\<lambda>s'. case extraction_status s' (tb_resume_id job_data) of
                             None \<Rightarrow> (s', Some (PyException (key_error (tb_resume_id job_data))))
                           | Some e \<Rightarrow> (s', None)) s)
       (batch_except task_id)"

text \<open>Lines 476-501 for subjob \<open>i\<close>.\<close>

definition worker_job_begin :: "string \<Rightarrow> nat \<Rightarrow> stmt" where
  "worker_job_begin task_id i =
     try_except (try_except (job_begin task_id i) (job_except task_id i))
       (batch_except task_id)"

text \<open>Lines 504-576 for subjob \<open>i\<close>; the resume id and the job description are those
  the task read from its batch at line 464-465 (no operation changes them).\<close>

definition worker_job_complete :: "string \<Rightarrow> nat \<Rightarrow> job_env \<Rightarrow> stmt" where
  "worker_job_complete task_id i env s =
     (case tailoring_jobs s task_id of
        None \<Rightarrow> (s, Some (PyException (key_error task_id)))
      | Some b \<Rightarrow>
          try_except
            (try_except
               (job_complete task_id (tb_resume_id b) i (job_descriptions b ! i) env)
               (job_except task_id i))
            (batch_except task_id) s)"

text \<open>Lines 578-601.\<close>

definition worker_finish :: "string \<Rightarrow> stmt" where
  "worker_finish task_id = try_except (check_completion task_id) (batch_except task_id)"

text \<open>
  The events of a run: a request served by a handler, a background extraction, a
  block of a tailoring worker, or a whole worker run at once. \<open>step\<close> is \<open>None\<close> for an
  event that cannot happen in the state: \<^verbatim>\<open>uuid.uuid4()\<close> returning an identifier already
  in use, or a worker block for a task or a position that does not exist. The other
  endpoints (\<^verbatim>\<open>/\<close>, \<^verbatim>\<open>/api/search\<close>, \<^verbatim>\<open>/api/download/{file_key}\<close>, \<^verbatim>\<open>/health\<close>,
  \<^verbatim>\<open>/api/validate-key\<close>) write neither the registries nor the two directories: they
  leave the state as it is and are not events.
\<close>

datatype event =
    Upload string string string string string string "string option"
  | Extract string
  | ExtractionDone string "pyval outcome"
  | GetExtractionStatus string
  | UpdateResumeData string "(string \<times> pyval) list"
  | Tailor tailor_request string string
  | GetTailoringStatus string
  | DownloadPdf string bool
  | WorkerStart string
  | WorkerJobBegin string nat
  | WorkerJobComplete string nat job_env
  | WorkerFinish string
  | WorkerRun string "nat \<Rightarrow> job_env"

fun step :: "(pyval \<Rightarrow> string) \<Rightarrow> event \<Rightarrow> sys \<Rightarrow> sys option" where
  "step py_str (Upload fname ext fpath content rid now write_error) s =
     (if resume_storage s rid = None
      then Some (fst (upload_resume fname ext fpath content rid now write_error s)) else None)"
| "step py_str (Extract rid) s = Some (fst (extract_resume_data rid s))"
| "step py_str (ExtractionDone rid parsed) s = Some (perform_extraction py_str rid parsed s)"
| "step py_str (GetExtractionStatus rid) s = Some (fst (get_extraction_status rid s))"
| "step py_str (UpdateResumeData rid updated_data) s =
     Some (fst (update_resume_data rid updated_data s))"
| "step py_str (Tailor request task_id now) s =
     (if tailoring_jobs s task_id = None
      then Some (fst (tailor_resume request task_id now s)) else None)"
| "step py_str (GetTailoringStatus task_id) s = Some (fst (get_tailoring_status task_id s))"
| "step py_str (DownloadPdf file_key ok) s =
     Some (fst (download_tailored_resume_pdf file_key ok s))"
| "step py_str (WorkerStart task_id) s =
     (if tailoring_jobs s task_id = None then None else Some (fst (worker_start task_id s)))"
| "step py_str (WorkerJobBegin task_id i) s =
     (case tailoring_jobs s task_id of
        None \<Rightarrow> None
      | Some b \<Rightarrow>
          if i < length (job_descriptions b) then Some (fst (worker_job_begin task_id i s))
          else None)"
| "step py_str (WorkerJobComplete task_id i env) s =
     (case tailoring_jobs s task_id of
        None \<Rightarrow> None
      | Some b \<Rightarrow>
          if i < length (job_descriptions b)
          then Some (fst (worker_job_complete task_id i env s)) else None)"
| "step py_str (WorkerFinish task_id) s =
     (if tailoring_jobs s task_id = None then None else Some (fst (worker_finish task_id s)))"
| "step py_str (WorkerRun task_id env) s =
     (if tailoring_jobs s task_id = None then None
      else Some (fst (perform_tailoring task_id env s)))"

fun run :: "(pyval \<Rightarrow> string) \<Rightarrow> event list \<Rightarrow> sys \<Rightarrow> sys option" where
  "run py_str [] s = Some s"
| "run py_str (ev # evs) s =
     (case step py_str ev s of None \<Rightarrow> None | Some s' \<Rightarrow> run py_str evs s')"

section \<open>Auxiliary notions for the proofs\<close>

text \<open>The part of a string after its last underscore.\<close>

definition after_last_underscore :: "string \<Rightarrow> string" where
  "after_last_underscore s = rev (takeWhile (\<lambda>c. c \<noteq> CHR ''_'') (rev s))"

text \<open>
  The base name as the specification words it for the download-as-pdf operation
  ("strips known suffixes"): a trailing \<^verbatim>\<open>.pdf\<close> or \<^verbatim>\<open>.json\<close> is removed. It is only
  compared with what \<open>download_tailored_resume_pdf\<close> computes.
\<close>

definition spec_base_name :: "string \<Rightarrow> string" where
  "spec_base_name file_key =
     (if suffix ''.pdf'' file_key then take (length file_key - 4) file_key
      else if suffix ''.json'' file_key then take (length file_key - 5) file_key
      else file_key)"

text \<open>Example data for the closed instances of the theorems.\<close>

definition example_resume :: resume_record where
  "example_resume =
     \<lparr>filename = ''cv.pdf'', file_path = ''uploads/r1_cv.pdf'', upload_time = ''t0'',
      rr_status = ''uploaded''\<rparr>"

definition example_data :: pyval where
  "example_data = PyDict [(''name'', PyStr ''Ann'')]"

text \<open>A state in which resume \<open>r1\<close> is registered and its extraction record is \<open>e\<close>.\<close>

definition example_state :: "extraction_record \<Rightarrow> sys" where
  "example_state e =
     init_sys\<lparr>resume_storage := [''r1'' \<mapsto> example_resume],
              extraction_status := [''r1'' \<mapsto> e]\<rparr>"

definition example_completed :: sys where
  "example_completed =
     example_state \<lparr>es_status = Completed, extracted_data = example_data,
                    es_error_message = None\<rparr>"

text \<open>Subjob \<open>i\<close> of batch \<open>task_id\<close> exists.\<close>

definition job_in_range :: "string \<Rightarrow> nat \<Rightarrow> sys \<Rightarrow> bool" where
  "job_in_range task_id i s =
     (case tailoring_jobs s task_id of None \<Rightarrow> False | Some b \<Rightarrow> i < length (individual_jobs b))"

text \<open>The state after \<open>f\<close> is applied to the record of subjob \<open>i\<close> of batch \<open>task_id\<close>.\<close>

definition map_job :: "string \<Rightarrow> nat \<Rightarrow> (subjob \<Rightarrow> subjob) \<Rightarrow> sys \<Rightarrow> sys" where
  "map_job task_id i f s =
     (case tailoring_jobs s task_id of
        None \<Rightarrow> s
      | Some b \<Rightarrow>
          s\<lparr>tailoring_jobs := (tailoring_jobs s)(task_id \<mapsto>
               b\<lparr>individual_jobs := (individual_jobs b)[i := f (individual_jobs b ! i)]\<rparr>)\<rparr>)"

text \<open>The collaborator calls that the iteration of a subjob makes (the tailoring call,
  and the writing of the JSON file when the tailoring call returned data) raise nothing
  but exceptions derived from \<^verbatim>\<open>Exception\<close>.\<close>

definition benign :: "job_env \<Rightarrow> bool" where
  "benign env =
     (case ai_result env of
        Raises (PyBaseException e) \<Rightarrow> False
      | Raises (PyException e) \<Rightarrow> True
      | Returns None \<Rightarrow> True
      | Returns (Some d) \<Rightarrow>
          (case json_write_error env of Some (PyBaseException e) \<Rightarrow> False | _ \<Rightarrow> True))"

text \<open>What one iteration of the loop makes of the record of its subjob, and of the
  directory of tailored resumes. When an exception that is not derived from
  \<^verbatim>\<open>Exception\<close> leaves the iteration, the record stays as the lines before the raise set
  it.\<close>

definition job_outcome ::
  "string \<Rightarrow> (string \<rightharpoonup> string) \<Rightarrow> nat \<Rightarrow> job_env \<Rightarrow> subjob \<Rightarrow> subjob" where
  "job_outcome rid job_desc_data i env job =
     (case ai_result env of
        Raises (PyException e) \<Rightarrow> mark_failed e job
      | Raises (PyBaseException e) \<Rightarrow>
          job\<lparr>job_status := Processing,
              progress_message := Some ''Tailoring resume with AI...''\<rparr>
      | Returns None \<Rightarrow> mark_failed ''Failed to generate tailored content'' job
      | Returns (Some dumped) \<Rightarrow>
          (case json_write_error env of
             Some (PyException e) \<Rightarrow> mark_failed e job
           | Some (PyBaseException e) \<Rightarrow>
               job\<lparr>job_status := Processing, progress_message := Some ''Saving JSON file...''\<rparr>
           | None \<Rightarrow>
               mark_completed (PyDict dumped)
                 (make_download_links (job_base_filename rid job_desc_data i @ ''.json'')
                    (job_base_filename rid job_desc_data i @ ''.pdf'') (pdf_generated env))
                 job))"

definition files_outcome ::
  "string \<Rightarrow> (string \<rightharpoonup> string) \<Rightarrow> nat \<Rightarrow> job_env \<Rightarrow> (string \<rightharpoonup> pyval)
     \<Rightarrow> (string \<rightharpoonup> pyval)" where
  "files_outcome rid job_desc_data i env files =
     (case ai_result env of
        Raises e \<Rightarrow> files
      | Returns None \<Rightarrow> files
      | Returns (Some dumped) \<Rightarrow>
          (case json_write_error env of
             Some e \<Rightarrow> files
           | None \<Rightarrow>
               if pdf_generated env
               then (files(job_base_filename rid job_desc_data i @ ''.json'' \<mapsto> PyDict dumped))
                      (job_base_filename rid job_desc_data i @ ''.pdf'' \<mapsto> PyDict dumped)
               else files(job_base_filename rid job_desc_data i @ ''.json'' \<mapsto> PyDict dumped)))"

text \<open>What lines 578-595 make of a batch.\<close>

definition aggregate :: "tailoring_batch \<Rightarrow> tailoring_batch" where
  "aggregate b =
     (let completed_count =
            length (filter (\<lambda>job. job_status job = Completed) (individual_jobs b));
          failed_count =
            length (filter (\<lambda>job. job_status job = Failed) (individual_jobs b));
          total_count = length (individual_jobs b)
      in if completed_count > 0
         then if completed_count = total_count then b\<lparr>tb_status := Completed\<rparr>
              else b\<lparr>tb_status := Completed,
                     tb_error_message :=
                       Some (partial_failure_message completed_count total_count failed_count)\<rparr>
         else b\<lparr>tb_status := Failed, tb_error_message := Some ''All jobs failed to process''\<rparr>)"

text \<open>A submission of two job descriptions for the resume of \<open>example_completed\<close>, the
  state after it, and collaborators that raise for the first subjob and succeed, without
  a rendered PDF, for the others.\<close>

definition example_request :: tailor_request where
  "example_request =
     \<lparr>resume_id = ''r1'',
      req_job_descriptions = [[''title'' \<mapsto> ''A'', ''company'' \<mapsto> ''X''],
                              [''title'' \<mapsto> ''B'', ''company'' \<mapsto> ''Y'']]\<rparr>"

definition example_submitted :: sys where
  "example_submitted = fst (tailor_resume example_request ''t1'' ''now'' example_completed)"

definition example_env :: "nat \<Rightarrow> job_env" where
  "example_env i =
     (if i = 0
      then \<lparr>ai_result = Raises (PyException ''boom''), json_write_error = None,
            pdf_generated = False\<rparr>
      else \<lparr>ai_result = Returns (Some [(''summary'', PyStr ''tailored'')]),
            json_write_error = None, pdf_generated = False\<rparr>)"


text \<open>What the subjobs of a batch are, apart from their progress: the job descriptions
  of the batch and, position by position, the index, title and company of the subjob
  records.\<close>

definition batch_shape ::
  "tailoring_batch \<Rightarrow> (string \<rightharpoonup> string) list \<times> (nat \<times> string \<times> string) list" where
  "batch_shape b =
     (job_descriptions b,
      map (\<lambda>job. (job_index job, job_title job, company job)) (individual_jobs b))"

definition shapes ::
  "sys \<Rightarrow> string \<Rightarrow> ((string \<rightharpoonup> string) list \<times> (nat \<times> string \<times> string) list) option" where
  "shapes s task_id = map_option batch_shape (tailoring_jobs s task_id)"

section \<open>Sanitization and artifact names\<close>

lemma alnum_not_space: "isalnum c \<Longrightarrow> \<not> isspace c"
  unfolding isalnum_def isspace_def Let_def by auto

lemma keep_space_is_blank: "keep_char c \<Longrightarrow> isspace c \<Longrightarrow> c = CHR '' ''"
proof -
  assume k: "keep_char c" and sp: "isspace c"
  have "\<not> isspace CHR ''-''" "\<not> isspace CHR ''_''" by (simp_all add: isspace_def)
  with k sp alnum_not_space [of c] show ?thesis
    unfolding keep_char_def by auto
qed

lemma rstrip_decomp: "s = rstrip s @ rev (takeWhile isspace (rev s))"
proof -
  have "rev s = takeWhile isspace (rev s) @ dropWhile isspace (rev s)" by simp
  then have "rev (rev s) = rev (takeWhile isspace (rev s) @ dropWhile isspace (rev s))" by simp
  then show ?thesis unfolding rstrip_def by (simp only: rev_rev_ident rev_append)
qed

lemma rstrip_last: "rstrip s \<noteq> [] \<Longrightarrow> \<not> isspace (last (rstrip s))"
  unfolding rstrip_def by (simp add: last_rev hd_dropWhile)

lemma sanitize_keeps: "set (sanitize s) \<subseteq> {c. keep_char c}"
proof -
  have "set (rstrip xs) \<subseteq> set xs" for xs
    unfolding rstrip_def using set_dropWhileD by fastforce
  then show ?thesis unfolding sanitize_def by fastforce
qed

lemma sanitize_trailing:
  "\<exists>n. filter keep_char s = sanitize s @ replicate n CHR '' ''"
proof -
  let ?xs = "filter keep_char s"
  let ?tl = "rev (takeWhile isspace (rev ?xs))"
  have "\<forall>c \<in> set ?tl. c = CHR '' ''"
  proof
    fix c assume "c \<in> set ?tl"
    then have c: "c \<in> set (takeWhile isspace (rev ?xs))" by simp
    then have "isspace c" by (rule set_takeWhileD [THEN conjunct2])
    moreover from c have "c \<in> set (rev ?xs)" by (rule set_takeWhileD [THEN conjunct1])
    then have "keep_char c" by simp
    ultimately show "c = CHR '' ''" by (rule keep_space_is_blank [rotated])
  qed
  then have "?tl = replicate (length ?tl) CHR '' ''"
    by (intro replicate_eqI) auto
  moreover have "?xs = sanitize s @ ?tl"
    unfolding sanitize_def by (rule rstrip_decomp)
  ultimately show ?thesis by metis
qed

lemma sanitize_example: "sanitize ''Acme, Inc.'' = ''Acme Inc''"
  by (simp add: sanitize_def rstrip_def keep_char_def isalnum_def isspace_def)

text \<open>
  C9. Sanitization keeps, in their order, exactly the characters of the input that are
  alphanumeric, a space, a hyphen or an underscore, and then trims the trailing
  whitespace: every character of the result is such a character, the kept characters of
  the input are the result followed by blanks only, and the result does not end in
  whitespace. The company "Acme, Inc." sanitizes to "Acme Inc".
\<close>

theorem sanitize_spec:
  "set (sanitize s) \<subseteq> {c. isalnum c \<or> c = CHR '' '' \<or> c = CHR ''-'' \<or> c = CHR ''_''}
   \<and> (\<exists>n. filter (\<lambda>c. isalnum c \<or> c = CHR '' '' \<or> c = CHR ''-'' \<or> c = CHR ''_'') s
            = sanitize s @ replicate n CHR '' '')
   \<and> (sanitize s = [] \<or> \<not> isspace (last (sanitize s)))
   \<and> sanitize ''Acme, Inc.'' = ''Acme Inc''"
proof -
  have k: "keep_char = (\<lambda>c. isalnum c \<or> c = CHR '' '' \<or> c = CHR ''-'' \<or> c = CHR ''_'')"
    by (auto simp: keep_char_def fun_eq_iff)
  have "set (sanitize s) \<subseteq> {c. keep_char c}" by (rule sanitize_keeps)
  moreover have "\<exists>n. filter keep_char s = sanitize s @ replicate n CHR '' ''"
    by (rule sanitize_trailing)
  moreover have "sanitize s = [] \<or> \<not> isspace (last (sanitize s))"
    using rstrip_last [of "filter keep_char s"] by (auto simp: sanitize_def)
  ultimately show ?thesis using sanitize_example unfolding k by blast
qed

theorem sanitize_spec_witness:
  "set (sanitize ''A&B Co.  '') \<subseteq> {c. isalnum c \<or> c = CHR '' '' \<or> c = CHR ''-'' \<or> c = CHR ''_''}
   \<and> (\<exists>n. filter (\<lambda>c. isalnum c \<or> c = CHR '' '' \<or> c = CHR ''-'' \<or> c = CHR ''_'') ''A&B Co.  ''
            = sanitize ''A&B Co.  '' @ replicate n CHR '' '')
   \<and> sanitize ''A&B Co.  '' = ''AB Co''
   \<and> \<not> isspace (last (sanitize ''A&B Co.  ''))
   \<and> sanitize ''Acme, Inc.'' = ''Acme Inc''"
proof -
  have v: "sanitize ''A&B Co.  '' = ''AB Co''"
    by (simp add: sanitize_def rstrip_def keep_char_def isalnum_def isspace_def)
  then have "sanitize ''A&B Co.  '' \<noteq> []" by simp
  with v sanitize_spec [of "''A&B Co.  ''"] show ?thesis by blast
qed

lemma digit_char_inj: "a < 10 \<Longrightarrow> b < 10 \<Longrightarrow> digit_char a = digit_char b \<Longrightarrow> a = b"
  unfolding digit_char_def
  by (simp add: nth_eq_iff_index_eq)

lemma digit_char_mem: "d < 10 \<Longrightarrow> digit_char d \<in> set ''0123456789''"
  unfolding digit_char_def by (rule nth_mem) simp

lemma digit_char_not_us: "d < 10 \<Longrightarrow> digit_char d \<noteq> CHR ''_''"
  using digit_char_mem [of d] by auto

lemma str_nat_nonempty: "str_nat n \<noteq> []"
  by (subst str_nat.simps) simp

lemma str_nat_no_us: "CHR ''_'' \<notin> set (str_nat n)"
proof (induction n rule: str_nat.induct)
  case (1 n)
  show ?case
  proof (cases "n < 10")
    case True
    then show ?thesis
      using digit_char_not_us [of n] by (subst str_nat.simps) auto
  next
    case False
    then have "CHR ''_'' \<notin> set (str_nat (n div 10))" using 1 by simp
    moreover have "digit_char (n mod 10) \<noteq> CHR ''_''"
      by (rule digit_char_not_us) simp
    ultimately show ?thesis using False
      by (subst str_nat.simps) auto
  qed
qed

lemma str_nat_inj: "str_nat n = str_nat m \<Longrightarrow> n = m"
proof (induction n arbitrary: m rule: str_nat.induct)
  case (1 n)
  note eq = \<open>str_nat n = str_nat m\<close>
  show ?case
  proof (cases "n < 10")
    case n_small: True
    show ?thesis
    proof (cases "m < 10")
      case True
      with n_small eq have "digit_char n = digit_char m"
        by (simp add: str_nat.simps [of n] str_nat.simps [of m])
      with n_small True show ?thesis by (rule digit_char_inj)
    next
      case False
      with n_small eq have "str_nat (m div 10) = []"
        by (simp add: str_nat.simps [of n] str_nat.simps [of m])
      then show ?thesis using str_nat_nonempty by blast
    qed
  next
    case n_big: False
    show ?thesis
    proof (cases "m < 10")
      case True
      with n_big eq have "str_nat (n div 10) = []"
        by (simp add: str_nat.simps [of n] str_nat.simps [of m])
      then show ?thesis using str_nat_nonempty by blast
    next
      case False
      with n_big eq have hd_eq: "str_nat (n div 10) = str_nat (m div 10)"
        and last_eq: "digit_char (n mod 10) = digit_char (m mod 10)"
        by (simp_all add: str_nat.simps [of n] str_nat.simps [of m])
      from 1(1) [OF n_big hd_eq] have "n div 10 = m div 10" .
      moreover have "n mod 10 = m mod 10"
        by (rule digit_char_inj [OF _ _ last_eq]) simp_all
      ultimately show ?thesis
        by (metis div_mult_mod_eq)
    qed
  qed
qed

lemma takeWhile_stop:
  "(\<And>x. x \<in> set xs \<Longrightarrow> P x) \<Longrightarrow> \<not> P y \<Longrightarrow> takeWhile P (xs @ y # ys) = xs"
  by (induction xs) auto

lemma after_last_underscore_base:
  "after_last_underscore (base_filename r c t i) = str_nat i"
proof -
  have "takeWhile (\<lambda>c. c \<noteq> CHR ''_'') (rev (str_nat i) @ CHR ''_'' # rev (r @ ''_'' @ c @ ''_'' @ t))
      = rev (str_nat i)"
  proof (rule takeWhile_stop)
    fix x assume "x \<in> set (rev (str_nat i))"
    then show "x \<noteq> CHR ''_''" using str_nat_no_us [of i] by auto
  qed simp
  then show ?thesis
    unfolding after_last_underscore_def base_filename_def by simp
qed

lemma base_filename_index_inj:
  "base_filename r c t i = base_filename r' c' t' j \<Longrightarrow> i = j"
proof -
  assume "base_filename r c t i = base_filename r' c' t' j"
  then have "after_last_underscore (base_filename r c t i)
           = after_last_underscore (base_filename r' c' t' j)" by simp
  then show "i = j" by (simp add: after_last_underscore_base str_nat_inj)
qed

lemma str_nat_0: "str_nat 0 = ''0''"
  by (simp add: str_nat.simps digit_char_def)

lemma str_nat_1: "str_nat (Suc 0) = ''1''"
  by (simp add: str_nat.simps digit_char_def)

text \<open>
  C4. Within one batch (one resume id), the base filenames derived for two subjobs at
  distinct positions \<open>i\<close> and \<open>j\<close> are distinct, whatever their job descriptions are, also
  when company and title coincide: two subjobs titled "Engineer" at "Acme" at positions
  0 and 1 get the names ending in \<open>_Acme_Engineer_0\<close> and \<open>_Acme_Engineer_1\<close>.
\<close>

theorem base_filename_unique:
  "(i \<noteq> j \<longrightarrow> job_base_filename rid (job_descs ! i) i \<noteq> job_base_filename rid (job_descs ! j) j)
   \<and> job_base_filename rid [''title'' \<mapsto> ''Engineer'', ''company'' \<mapsto> ''Acme''] 0
       = rid @ ''_Acme_Engineer_0''
   \<and> job_base_filename rid [''title'' \<mapsto> ''Engineer'', ''company'' \<mapsto> ''Acme''] 1
       = rid @ ''_Acme_Engineer_1''"
proof -
  have "sanitize ''Acme'' = ''Acme''" "sanitize ''Engineer'' = ''Engineer''"
    by (simp_all add: sanitize_def rstrip_def keep_char_def isalnum_def isspace_def)
  then have "job_base_filename rid [''title'' \<mapsto> ''Engineer'', ''company'' \<mapsto> ''Acme''] n
      = rid @ ''_Acme_Engineer_'' @ str_nat n" for n
    by (simp add: job_base_filename_def base_filename_def dget_def)
  from this [of 0] this [of 1] show ?thesis
    using base_filename_index_inj
    by (auto simp: job_base_filename_def str_nat_0 str_nat_1)
qed

theorem base_filename_unique_witness:
  "(0::nat) \<noteq> 1
   \<and> job_base_filename ''r1'' ([[''title'' \<mapsto> ''Engineer'', ''company'' \<mapsto> ''Acme''],
                               [''title'' \<mapsto> ''Engineer'', ''company'' \<mapsto> ''Acme'']] ! 0) 0
     \<noteq> job_base_filename ''r1'' ([[''title'' \<mapsto> ''Engineer'', ''company'' \<mapsto> ''Acme''],
                               [''title'' \<mapsto> ''Engineer'', ''company'' \<mapsto> ''Acme'']] ! 1) 1
   \<and> job_base_filename ''r1'' [''title'' \<mapsto> ''Engineer'', ''company'' \<mapsto> ''Acme''] 0
       = ''r1_Acme_Engineer_0''
   \<and> job_base_filename ''r1'' [''title'' \<mapsto> ''Engineer'', ''company'' \<mapsto> ''Acme''] 1
       = ''r1_Acme_Engineer_1''"
  using base_filename_unique [of 0 1 "''r1''"
      "[[''title'' \<mapsto> ''Engineer'', ''company'' \<mapsto> ''Acme''],
        [''title'' \<mapsto> ''Engineer'', ''company'' \<mapsto> ''Acme'']]"]
  by simp

section \<open>The submit operation\<close>

lemma example_state_simps:
  "resume_storage (example_state e) ''r1'' = Some example_resume"
  "extraction_status (example_state e) ''r1'' = Some e"
  "tailoring_jobs (example_state e) = Map.empty"
  "tailored_files (example_state e) = Map.empty"
  by (simp_all add: example_state_def init_sys_def)

text \<open>
  C2. \<open>tailor_resume\<close> checks its four preconditions in this order, each with a failure
  of its own: an unknown resume id fails with 404 "Resume not found" (NotFound); a known
  resume without an extraction record with 400 "Resume not extracted yet" (NotExtracted);
  a record whose state is not \<open>completed\<close> with 400 "Resume extraction not completed"
  (ExtractionIncomplete), so a \<open>pending\<close> resume fails with ExtractionIncomplete and not
  with NotExtracted; a completed record whose data is empty with 400 "No extracted resume
  data available" (NoData). The four failures are pairwise distinct, and on every failure
  the state, and with it the tailoring-jobs registry, is unchanged.
\<close>

theorem submit_preconditions:
  "(resume_storage s (resume_id request) = None \<longrightarrow>
      tailor_resume request task_id now s = (s, Inl (HTTPException 404 ''Resume not found'')))
   \<and> (resume_storage s (resume_id request) \<noteq> None
        \<and> extraction_status s (resume_id request) = None \<longrightarrow>
      tailor_resume request task_id now s
        = (s, Inl (HTTPException 400 ''Resume not extracted yet'')))
   \<and> (resume_storage s (resume_id request) \<noteq> None
        \<and> extraction_status s (resume_id request) = Some e \<and> es_status e \<noteq> Completed \<longrightarrow>
      tailor_resume request task_id now s
        = (s, Inl (HTTPException 400 ''Resume extraction not completed'')))
   \<and> (resume_storage s (resume_id request) \<noteq> None
        \<and> extraction_status s (resume_id request) = Some e \<and> es_status e = Completed
        \<and> \<not> truthy (extracted_data e) \<longrightarrow>
      tailor_resume request task_id now s
        = (s, Inl (HTTPException 400 ''No extracted resume data available'')))
   \<and> (resume_storage s (resume_id request) \<noteq> None
        \<and> extraction_status s (resume_id request) = Some e \<and> es_status e = Pending \<longrightarrow>
      snd (tailor_resume request task_id now s)
        = Inl (HTTPException 400 ''Resume extraction not completed'')
      \<and> snd (tailor_resume request task_id now s)
        \<noteq> Inl (HTTPException 400 ''Resume not extracted yet''))
   \<and> (snd (tailor_resume request task_id now s) = Inl err \<longrightarrow>
        fst (tailor_resume request task_id now s) = s
        \<and> tailoring_jobs (fst (tailor_resume request task_id now s)) = tailoring_jobs s)
   \<and> distinct [HTTPException 404 ''Resume not found'',
                HTTPException 400 ''Resume not extracted yet'',
                HTTPException 400 ''Resume extraction not completed'',
                HTTPException 400 ''No extracted resume data available'']"
  by (auto simp: tailor_resume_def split: option.splits)

theorem submit_preconditions_witness:
  "resume_storage init_sys ''r1'' = None
   \<and> tailor_resume \<lparr>resume_id = ''r1'', req_job_descriptions = [[''title'' \<mapsto> ''A'']]\<rparr>
        ''t1'' ''now'' init_sys
      = (init_sys, Inl (HTTPException 404 ''Resume not found''))
   \<and> extraction_status (init_sys\<lparr>resume_storage := [''r1'' \<mapsto> example_resume]\<rparr>) ''r1'' = None
   \<and> tailor_resume \<lparr>resume_id = ''r1'', req_job_descriptions = [[''title'' \<mapsto> ''A'']]\<rparr>
        ''t1'' ''now'' (init_sys\<lparr>resume_storage := [''r1'' \<mapsto> example_resume]\<rparr>)
      = (init_sys\<lparr>resume_storage := [''r1'' \<mapsto> example_resume]\<rparr>,
         Inl (HTTPException 400 ''Resume not extracted yet''))
   \<and> tailor_resume \<lparr>resume_id = ''r1'', req_job_descriptions = [[''title'' \<mapsto> ''A'']]\<rparr>
        ''t1'' ''now''
        (example_state \<lparr>es_status = Pending, extracted_data = PyNone, es_error_message = None\<rparr>)
      = (example_state \<lparr>es_status = Pending, extracted_data = PyNone, es_error_message = None\<rparr>,
         Inl (HTTPException 400 ''Resume extraction not completed''))
   \<and> tailor_resume \<lparr>resume_id = ''r1'', req_job_descriptions = [[''title'' \<mapsto> ''A'']]\<rparr>
        ''t1'' ''now''
        (example_state \<lparr>es_status = Completed, extracted_data = PyDict [], es_error_message = None\<rparr>)
      = (example_state \<lparr>es_status = Completed, extracted_data = PyDict [], es_error_message = None\<rparr>,
         Inl (HTTPException 400 ''No extracted resume data available''))
   \<and> tailoring_jobs (fst (tailor_resume
          \<lparr>resume_id = ''r1'', req_job_descriptions = [[''title'' \<mapsto> ''A'']]\<rparr> ''t1'' ''now''
          (example_state \<lparr>es_status = Pending, extracted_data = PyNone, es_error_message = None\<rparr>)))
      = Map.empty"
proof -
  let ?r = "\<lparr>resume_id = ''r1'', req_job_descriptions = [[''title'' \<mapsto> ''A'']]\<rparr>"
  let ?p = "\<lparr>es_status = Pending, extracted_data = PyNone, es_error_message = None\<rparr>"
  let ?c = "\<lparr>es_status = Completed, extracted_data = PyDict [], es_error_message = None\<rparr>"
  have a: "resume_storage init_sys ''r1'' = None" by (simp add: init_sys_def)
  have b: "resume_storage (init_sys\<lparr>resume_storage := [''r1'' \<mapsto> example_resume]\<rparr>) ''r1'' \<noteq> None"
    "extraction_status (init_sys\<lparr>resume_storage := [''r1'' \<mapsto> example_resume]\<rparr>) ''r1'' = None"
    by (simp_all add: init_sys_def)
  note t1 = submit_preconditions [of init_sys ?r "''t1''" "''now''" ?p "HTTPException 404 ''Resume not found''"]
  note t2 = submit_preconditions [of "init_sys\<lparr>resume_storage := [''r1'' \<mapsto> example_resume]\<rparr>"
      ?r "''t1''" "''now''" ?p "HTTPException 400 ''Resume not extracted yet''"]
  note t3 = submit_preconditions [of "example_state ?p" ?r "''t1''" "''now''" ?p
      "HTTPException 400 ''Resume extraction not completed''"]
  note t4 = submit_preconditions [of "example_state ?c" ?r "''t1''" "''now''" ?c
      "HTTPException 400 ''No extracted resume data available''"]
  from t1 a have c1: "tailor_resume ?r ''t1'' ''now'' init_sys
      = (init_sys, Inl (HTTPException 404 ''Resume not found''))" by simp
  from t2 b have c2: "tailor_resume ?r ''t1'' ''now''
        (init_sys\<lparr>resume_storage := [''r1'' \<mapsto> example_resume]\<rparr>)
      = (init_sys\<lparr>resume_storage := [''r1'' \<mapsto> example_resume]\<rparr>,
         Inl (HTTPException 400 ''Resume not extracted yet''))" by simp
  from t3 have c3: "tailor_resume ?r ''t1'' ''now'' (example_state ?p)
      = (example_state ?p, Inl (HTTPException 400 ''Resume extraction not completed''))"
    by (simp add: example_state_simps)
  from t4 have c4: "tailor_resume ?r ''t1'' ''now'' (example_state ?c)
      = (example_state ?c, Inl (HTTPException 400 ''No extracted resume data available''))"
    by (simp add: example_state_simps)
  from c3 have c5: "tailoring_jobs (fst (tailor_resume ?r ''t1'' ''now'' (example_state ?p)))
      = Map.empty" by (simp add: example_state_simps)
  from a b(2) c1 c2 c3 c4 c5 show ?thesis by (simp only: simp_thms)
qed

section \<open>The extraction record\<close>

text \<open>
  C7. The claim is that in every reachable state a resume's extraction record holds
  extracted data if and only if its state is \<open>completed\<close>, also after extraction is
  triggered again on a completed resume. The code does not keep it there: after an
  upload, an extraction that completes with data, and a second call of
  \<open>extract_resume_data\<close>, the record is in state \<open>processing\<close> and still holds the data of
  the first run (line 218 assigns the status only, while the response of lines 220-225
  reports no data).
\<close>

theorem reextraction_keeps_extracted_data:
  "\<exists>s e. run py_str
            [Upload ''cv.pdf'' ''.pdf'' ''uploads/r1_cv.pdf'' ''content'' ''r1'' ''t0'' None,
             Extract ''r1'',
             ExtractionDone ''r1'' (Returns (PyDict [(''name'', PyStr ''Ann'')])),
             Extract ''r1''] init_sys = Some s
     \<and> extraction_status s ''r1'' = Some e
     \<and> es_status e = Processing
     \<and> extracted_data e = PyDict [(''name'', PyStr ''Ann'')]
     \<and> extracted_data e \<noteq> PyNone"
  by (simp add: init_sys_def upload_resume_def allowed_extensions_def
        extract_resume_data_def perform_extraction_def Let_def)


section \<open>Download as PDF\<close>

lemma str_remove_skip:
  "\<not> prefix old (c # cs) \<Longrightarrow> str_remove old (c # cs) = c # str_remove old cs"
  by (simp add: str_remove.simps(2))

lemma str_remove_hit:
  "old \<noteq> [] \<Longrightarrow> str_remove old (old @ cs) = str_remove old cs"
  by (cases old) (simp_all add: str_remove.simps(2))

lemma str_remove_no_occurrence:
  "\<not> sublist ''.json'' b \<Longrightarrow> str_remove ''.json'' b = b"
proof (induction b)
  case Nil
  then show ?case by simp
next
  case (Cons c cs)
  from Cons.prems have "\<not> (prefix ''.json'' (c # cs) \<or> sublist ''.json'' cs)"
    by (simp add: sublist_Cons_right)
  then have np: "\<not> prefix ''.json'' (c # cs)" and ns: "\<not> sublist ''.json'' cs"
    by simp_all
  from Cons.IH [OF ns] str_remove_skip [OF np] show ?case by (simp only:)
qed

lemma prefix_before_dot:
  "prefix p (cs @ CHR ''.'' # z) \<Longrightarrow> CHR ''.'' \<notin> set p \<Longrightarrow> prefix p cs"
proof (induction p arbitrary: cs)
  case Nil
  then show ?case by simp
next
  case (Cons x xs)
  show ?case
  proof (cases cs)
    case Nil
    with Cons.prems show ?thesis by simp
  next
    case (Cons y ys)
    with Cons.prems have "x = y" and "prefix xs (ys @ CHR ''.'' # z)" by simp_all
    moreover from Cons.prems have "CHR ''.'' \<notin> set xs" by simp
    ultimately show ?thesis using Cons.IH [of ys] Cons by simp
  qed
qed

lemma no_border:
  "prefix ''.json'' (c # cs @ CHR ''.'' # z) \<Longrightarrow> prefix ''.json'' (c # cs)"
proof -
  assume "prefix ''.json'' (c # cs @ CHR ''.'' # z)"
  then have c: "c = CHR ''.''" and p: "prefix ''json'' (cs @ CHR ''.'' # z)" by auto
  have "CHR ''.'' \<notin> set ''json''" by simp
  with p have "prefix ''json'' cs" by (rule prefix_before_dot)
  with c show ?thesis by simp
qed

lemma str_remove_before_dot:
  "\<not> sublist ''.json'' b \<Longrightarrow>
   str_remove ''.json'' (b @ CHR ''.'' # z) = b @ str_remove ''.json'' (CHR ''.'' # z)"
proof (induction b)
  case Nil
  then show ?case by simp
next
  case (Cons c cs)
  from Cons.prems have "\<not> (prefix ''.json'' (c # cs) \<or> sublist ''.json'' cs)"
    by (simp add: sublist_Cons_right)
  then have n0: "\<not> prefix ''.json'' (c # cs)" and ns: "\<not> sublist ''.json'' cs"
    by simp_all
  from n0 have np: "\<not> prefix ''.json'' (c # cs @ CHR ''.'' # z)"
    by (rule contrapos_nn) (rule no_border)
  from Cons.IH [OF ns] str_remove_skip [OF np] show ?case by (simp only: append_Cons)
qed

lemma str_remove_json_suffix:
  "\<not> sublist ''.json'' b \<Longrightarrow> str_remove ''.json'' (b @ ''.json'') = b"
proof -
  assume "\<not> sublist ''.json'' b"
  then have "str_remove ''.json'' (b @ ''.json'') = b @ str_remove ''.json'' (''.json'' @ [])"
    using str_remove_before_dot [of b "''json''"] by simp
  also have "str_remove ''.json'' (''.json'' @ []) = []"
    by (subst str_remove_hit) simp_all
  finally show ?thesis by simp
qed

lemma str_remove_pdf_suffix:
  "\<not> sublist ''.json'' b \<Longrightarrow> str_remove ''.json'' (b @ ''.pdf'') = b @ ''.pdf''"
proof -
  assume "\<not> sublist ''.json'' b"
  then have "str_remove ''.json'' (b @ ''.pdf'') = b @ str_remove ''.json'' ''.pdf''"
    using str_remove_before_dot [of b "''pdf''"] by simp
  also have "str_remove ''.json'' ''.pdf'' = ''.pdf''"
    by (simp add: str_remove_skip)
  finally show ?thesis .
qed

text \<open>
  C8 (amended). \<open>download_tailored_resume_pdf\<close> strips \<^verbatim>\<open>.json\<close> only: for a key that is
  a base name \<open>b\<close> or \<open>b\<close> followed by \<^verbatim>\<open>.json\<close> (with no \<^verbatim>\<open>.json\<close> inside \<open>b\<close>) it serves
  the existing \<open>b.pdf\<close> if present; otherwise, if \<open>b.json\<close> exists, it renders it, stores
  the result as \<open>b.pdf\<close> and serves it, or fails with status 500 (RenderFailed) when the
  rendering fails; and it fails with 404 (NotFound) when neither file exists. A \<^verbatim>\<open>.pdf\<close>
  suffix is not stripped: the key \<open>b.pdf\<close> has the base name \<open>b.pdf\<close>.
\<close>

theorem download_pdf_fallback:
  assumes "\<not> sublist ''.json'' b"
    and "file_key = b \<or> file_key = b @ ''.json''"
  shows
   "(tailored_files s (b @ ''.pdf'') \<noteq> None \<longrightarrow>
       download_tailored_resume_pdf file_key pdf_ok s
         = (s, Inr (FileResponse (''tailored_resumes/'' @ b @ ''.pdf'') (b @ ''.pdf'')
                      ''application/pdf'')))
    \<and> (tailored_files s (b @ ''.pdf'') = None \<and> tailored_files s (b @ ''.json'') = Some d
          \<and> pdf_ok \<longrightarrow>
       download_tailored_resume_pdf file_key pdf_ok s
         = (s\<lparr>tailored_files := (tailored_files s)(b @ ''.pdf'' \<mapsto> d)\<rparr>,
            Inr (FileResponse (''tailored_resumes/'' @ b @ ''.pdf'') (b @ ''.pdf'')
                   ''application/pdf'')))
    \<and> (tailored_files s (b @ ''.pdf'') = None \<and> tailored_files s (b @ ''.json'') = Some d
          \<and> \<not> pdf_ok \<longrightarrow>
       download_tailored_resume_pdf file_key pdf_ok s
         = (s, Inl (HTTPException 500
                      ''Error generating PDF: 500: Failed to generate PDF'')))
    \<and> (tailored_files s (b @ ''.pdf'') = None \<and> tailored_files s (b @ ''.json'') = None \<longrightarrow>
       download_tailored_resume_pdf file_key pdf_ok s
         = (s, Inl (HTTPException 404 ''Resume file not found'')))
    \<and> str_remove ''.json'' (b @ ''.pdf'') = b @ ''.pdf''"
proof -
  from assms have base: "str_remove ''.json'' file_key = b"
    using str_remove_no_occurrence str_remove_json_suffix by blast
  have e: "http_exception_str 500 ''Failed to generate PDF'' = ''500: Failed to generate PDF''"
    by (simp add: http_exception_str_def str_nat.simps digit_char_def)
  show ?thesis
    using str_remove_pdf_suffix [OF assms(1)]
    by (simp add: download_tailored_resume_pdf_def base e Let_def)
qed

theorem download_pdf_fallback_witness:
  "\<not> sublist ''.json'' ''r1_A_B_0''
   \<and> download_tailored_resume_pdf ''r1_A_B_0.json'' True
        (init_sys\<lparr>tailored_files := [''r1_A_B_0.json'' \<mapsto> example_data]\<rparr>)
      = (init_sys\<lparr>tailored_files := [''r1_A_B_0.json'' \<mapsto> example_data]\<rparr>
           \<lparr>tailored_files := [''r1_A_B_0.json'' \<mapsto> example_data,
                               ''r1_A_B_0.pdf'' \<mapsto> example_data]\<rparr>,
         Inr (FileResponse ''tailored_resumes/r1_A_B_0.pdf'' ''r1_A_B_0.pdf''
                ''application/pdf''))
   \<and> download_tailored_resume_pdf ''r1_A_B_0'' False
        (init_sys\<lparr>tailored_files := [''r1_A_B_0.json'' \<mapsto> example_data]\<rparr>)
      = (init_sys\<lparr>tailored_files := [''r1_A_B_0.json'' \<mapsto> example_data]\<rparr>,
         Inl (HTTPException 500 ''Error generating PDF: 500: Failed to generate PDF''))
   \<and> download_tailored_resume_pdf ''r1_A_B_0.json'' True
        (init_sys\<lparr>tailored_files := [''r1_A_B_0.pdf'' \<mapsto> example_data]\<rparr>)
      = (init_sys\<lparr>tailored_files := [''r1_A_B_0.pdf'' \<mapsto> example_data]\<rparr>,
         Inr (FileResponse ''tailored_resumes/r1_A_B_0.pdf'' ''r1_A_B_0.pdf''
                ''application/pdf''))
   \<and> download_tailored_resume_pdf ''r1_A_B_0'' True init_sys
      = (init_sys, Inl (HTTPException 404 ''Resume file not found''))"
proof -
  let ?b = "''r1_A_B_0''"
  let ?j = "init_sys\<lparr>tailored_files := [''r1_A_B_0.json'' \<mapsto> example_data]\<rparr>"
  let ?p = "init_sys\<lparr>tailored_files := [''r1_A_B_0.pdf'' \<mapsto> example_data]\<rparr>"
  have n: "\<not> sublist ''.json'' ?b" by (simp add: sublist_Cons_right)
  have k1: "''r1_A_B_0.json'' = ?b \<or> ''r1_A_B_0.json'' = ?b @ ''.json''" by simp
  have k2: "?b = ?b \<or> ?b = ?b @ ''.json''" by simp
  from download_pdf_fallback [OF n k1, of ?j True example_data]
  have c1: "download_tailored_resume_pdf ''r1_A_B_0.json'' True ?j
      = (?j\<lparr>tailored_files := [''r1_A_B_0.json'' \<mapsto> example_data,
                                ''r1_A_B_0.pdf'' \<mapsto> example_data]\<rparr>,
         Inr (FileResponse ''tailored_resumes/r1_A_B_0.pdf'' ''r1_A_B_0.pdf''
                ''application/pdf''))"
    by (simp add: init_sys_def)
  from download_pdf_fallback [OF n k2, of ?j False example_data]
  have c2: "download_tailored_resume_pdf ?b False ?j
      = (?j, Inl (HTTPException 500 ''Error generating PDF: 500: Failed to generate PDF''))"
    by (simp add: init_sys_def)
  from download_pdf_fallback [OF n k1, of ?p True example_data]
  have c3: "download_tailored_resume_pdf ''r1_A_B_0.json'' True ?p
      = (?p, Inr (FileResponse ''tailored_resumes/r1_A_B_0.pdf'' ''r1_A_B_0.pdf''
                ''application/pdf''))"
    by (simp add: init_sys_def)
  from download_pdf_fallback [OF n k2, of init_sys True example_data]
  have c4: "download_tailored_resume_pdf ?b True init_sys
      = (init_sys, Inl (HTTPException 404 ''Resume file not found''))"
    by (simp add: init_sys_def)
  from n c1 c2 c3 c4 show ?thesis by (simp only: simp_thms)
qed


text \<open>
  C8 as stated fails for a key that carries the \<^verbatim>\<open>.pdf\<close> suffix: the rendered artifact
  of the base name exists, and the operation answers 404 instead of serving it.
\<close>

theorem download_pdf_suffix_counterexample:
  "spec_base_name ''r1_Acme_Engineer_0.pdf'' = ''r1_Acme_Engineer_0''
   \<and> tailored_files (init_sys\<lparr>tailored_files := [''r1_Acme_Engineer_0.pdf'' \<mapsto> PyDict []]\<rparr>)
        (''r1_Acme_Engineer_0'' @ ''.pdf'') = Some (PyDict [])
   \<and> download_tailored_resume_pdf ''r1_Acme_Engineer_0.pdf'' True
        (init_sys\<lparr>tailored_files := [''r1_Acme_Engineer_0.pdf'' \<mapsto> PyDict []]\<rparr>)
      = (init_sys\<lparr>tailored_files := [''r1_Acme_Engineer_0.pdf'' \<mapsto> PyDict []]\<rparr>,
         Inl (HTTPException 404 ''Resume file not found''))"
  by (simp add: spec_base_name_def suffix_def init_sys_def download_tailored_resume_pdf_def
        str_remove_skip Let_def)

section \<open>One iteration of the worker loop\<close>

lemma set_job_ok:
  "job_in_range task_id i s \<Longrightarrow> set_job task_id i f s = (map_job task_id i f s, None)"
  by (auto simp: job_in_range_def set_job_def map_job_def split: option.splits)

lemma job_in_range_map_job [simp]:
  "job_in_range task_id i (map_job task_id j f s) = job_in_range task_id i s"
  by (auto simp: job_in_range_def map_job_def split: option.splits)

lemma job_in_range_files [simp]:
  "job_in_range task_id i (s\<lparr>tailored_files := fs\<rparr>) = job_in_range task_id i s"
  by (simp add: job_in_range_def)

lemma map_job_files:
  "map_job task_id i f (s\<lparr>tailored_files := fs\<rparr>) = (map_job task_id i f s)\<lparr>tailored_files := fs\<rparr>"
  by (simp add: map_job_def split: option.splits)

lemma tailored_files_map_job [simp]:
  "tailored_files (map_job task_id i f s) = tailored_files s"
  by (simp add: map_job_def split: option.splits)

lemma map_job_twice:
  "map_job task_id i g (map_job task_id i f s) = map_job task_id i (\<lambda>job. g (f job)) s"
proof (cases "tailoring_jobs s task_id")
  case None
  then show ?thesis by (simp add: map_job_def)
next
  case (Some b)
  show ?thesis
  proof (cases "i < length (individual_jobs b)")
    case True
    with Some show ?thesis by (simp add: map_job_def)
  next
    case False
    with Some show ?thesis by (simp add: map_job_def list_update_beyond)
  qed
qed

lemma set_progress_ok:
  "job_in_range task_id i s \<Longrightarrow>
   set_progress task_id i msg s
     = (map_job task_id i (\<lambda>job. job\<lparr>progress_message := Some msg\<rparr>) s, None)"
  by (simp add: set_progress_def set_job_ok)

lemma job_begin_ok:
  "job_in_range task_id i s \<Longrightarrow>
   job_begin task_id i s
     = (map_job task_id i
          (\<lambda>job. job\<lparr>job_status := Processing,
                       progress_message := Some ''Tailoring resume with AI...''\<rparr>) s, None)"
  by (simp add: job_begin_def seq_def set_job_ok set_progress_ok map_job_twice)

lemma mark_failed_absorbs [simp]:
  "mark_failed e (job\<lparr>progress_message := m\<rparr>) = mark_failed e job"
  "mark_failed e (job\<lparr>job_status := st\<rparr>) = mark_failed e job"
  by (simp_all add: mark_failed_def)

lemma mark_completed_absorbs [simp]:
  "mark_completed d l (job\<lparr>progress_message := m\<rparr>) = mark_completed d l job"
  "mark_completed d l (job\<lparr>job_status := st\<rparr>) = mark_completed d l job"
  by (simp_all add: mark_completed_def)

lemma process_job_raises:
  assumes "job_in_range task_id i s" and "ai_result env = Raises (PyException e)"
  shows "process_job task_id rid i jd env s = (map_job task_id i (mark_failed e) s, None)"
  using assms
  by (simp add: process_job_def try_except_def seq_def job_begin_ok job_complete_def
        raise_def job_except_def set_job_ok map_job_twice)

text \<open>An exception outside \<^verbatim>\<open>Exception\<close> raised by the awaited call leaves the iteration:
  the subjob stays as the lines before the \<^verbatim>\<open>await\<close> set it.\<close>

lemma process_job_uncaught:
  assumes "job_in_range task_id i s" and "ai_result env = Raises (PyBaseException e)"
  shows "process_job task_id rid i jd env s
    = (map_job task_id i
         (\<lambda>job. job\<lparr>job_status := Processing,
                      progress_message := Some ''Tailoring resume with AI...''\<rparr>) s,
       Some (PyBaseException e))"
  using assms
  by (simp add: process_job_def try_except_def seq_def job_begin_ok job_complete_def
        raise_def)

lemma process_job_none:
  assumes "job_in_range task_id i s" and "ai_result env = Returns None"
  shows "process_job task_id rid i jd env s
    = (map_job task_id i (mark_failed ''Failed to generate tailored content'') s, None)"
  using assms
  by (simp add: process_job_def try_except_def seq_def job_begin_ok job_complete_def
        set_job_ok map_job_twice)

lemma process_job_write_error:
  assumes "job_in_range task_id i s" and "ai_result env = Returns (Some d)"
    and "json_write_error env = Some (PyException e)"
  shows "process_job task_id rid i jd env s = (map_job task_id i (mark_failed e) s, None)"
  using assms
  by (simp add: process_job_def try_except_def seq_def job_begin_ok job_complete_def
        Let_def set_progress_ok write_json_def job_except_def set_job_ok map_job_twice)

lemma process_job_write_uncaught:
  assumes "job_in_range task_id i s" and "ai_result env = Returns (Some d)"
    and "json_write_error env = Some (PyBaseException e)"
  shows "process_job task_id rid i jd env s
    = (map_job task_id i
         (\<lambda>job. job\<lparr>job_status := Processing,
                      progress_message := Some ''Saving JSON file...''\<rparr>) s,
       Some (PyBaseException e))"
  using assms
  by (simp add: process_job_def try_except_def seq_def job_begin_ok job_complete_def
        Let_def set_progress_ok write_json_def map_job_twice)

lemma process_job_completed:
  assumes "job_in_range task_id i s" and "ai_result env = Returns (Some d)"
    and "json_write_error env = None"
  shows "process_job task_id rid i jd env s
    = ((map_job task_id i
          (mark_completed (PyDict d)
             (make_download_links (job_base_filename rid jd i @ ''.json'')
                (job_base_filename rid jd i @ ''.pdf'') (pdf_generated env))) s)
        \<lparr>tailored_files := files_outcome rid jd i env (tailored_files s)\<rparr>, None)"
  using assms
  by (simp add: process_job_def try_except_def seq_def job_begin_ok job_complete_def
        Let_def set_progress_ok write_json_def generate_pdf_def set_job_ok map_job_twice
        map_job_files files_outcome_def)

lemma map_job_files_same [simp]:
  "(map_job task_id i f s)\<lparr>tailored_files := tailored_files s\<rparr> = map_job task_id i f s"
  by (simp add: map_job_def split: option.splits)

lemma job_outcome_cases:
  "ai_result env = Raises (PyException e) \<Longrightarrow> job_outcome rid jd i env = mark_failed e"
  "ai_result env = Returns None \<Longrightarrow>
     job_outcome rid jd i env = mark_failed ''Failed to generate tailored content''"
  "ai_result env = Returns (Some d) \<Longrightarrow> json_write_error env = Some (PyException e) \<Longrightarrow>
     job_outcome rid jd i env = mark_failed e"
  "ai_result env = Returns (Some d) \<Longrightarrow> json_write_error env = None \<Longrightarrow>
     job_outcome rid jd i env
       = mark_completed (PyDict d)
           (make_download_links (job_base_filename rid jd i @ ''.json'')
              (job_base_filename rid jd i @ ''.pdf'') (pdf_generated env))"
  by (rule ext, simp add: job_outcome_def)+

lemma process_job_eq:
  assumes "job_in_range task_id i s" and "benign env"
  shows "process_job task_id rid i jd env s
    = ((map_job task_id i (job_outcome rid jd i env) s)
        \<lparr>tailored_files := files_outcome rid jd i env (tailored_files s)\<rparr>, None)"
proof (cases "ai_result env")
  case (Raises x)
  with assms(2) obtain e where "x = PyException e"
    by (cases x) (simp_all add: benign_def)
  with Raises assms(1) show ?thesis
    by (simp add: process_job_raises job_outcome_cases files_outcome_def)
next
  case (Returns r)
  show ?thesis
  proof (cases r)
    case None
    with Returns assms(1) show ?thesis
      by (simp add: process_job_none job_outcome_cases files_outcome_def)
  next
    case (Some d)
    show ?thesis
    proof (cases "json_write_error env")
      case None
      with Returns Some assms(1) show ?thesis
        by (simp add: process_job_completed job_outcome_cases)
    next
      case (Some x)
      with assms(2) Returns \<open>r = Some d\<close> obtain e where "x = PyException e"
        by (cases x) (simp_all add: benign_def)
      with Some Returns \<open>r = Some d\<close> assms(1) show ?thesis
        by (simp add: process_job_write_error job_outcome_cases files_outcome_def)
    qed
  qed
qed


text \<open>The state an iteration leaves, whether it returns or not.\<close>

lemma process_job_state:
  assumes "job_in_range task_id i s"
  shows "fst (process_job task_id rid i jd env s)
    = (map_job task_id i (job_outcome rid jd i env) s)
        \<lparr>tailored_files := files_outcome rid jd i env (tailored_files s)\<rparr>"
proof (cases "benign env")
  case True
  from process_job_eq [OF assms True] show ?thesis by simp
next
  case False
  show ?thesis
  proof (cases "ai_result env")
    case (Raises x)
    with False obtain e where x: "x = PyBaseException e"
      by (cases x) (simp_all add: benign_def)
    have "job_outcome rid jd i env
        = (\<lambda>job. job\<lparr>job_status := Processing,
                        progress_message := Some ''Tailoring resume with AI...''\<rparr>)"
      using Raises x by (intro ext) (simp add: job_outcome_def)
    with Raises x assms show ?thesis
      by (simp add: process_job_uncaught files_outcome_def)
  next
    case (Returns r)
    with False obtain d e where r: "r = Some d"
      and w: "json_write_error env = Some (PyBaseException e)"
      by (auto simp: benign_def split: option.splits exn.splits)
    have "job_outcome rid jd i env
        = (\<lambda>job. job\<lparr>job_status := Processing,
                        progress_message := Some ''Saving JSON file...''\<rparr>)"
      using Returns r w by (intro ext) (simp add: job_outcome_def)
    with Returns r w assms show ?thesis
      by (simp add: process_job_write_uncaught files_outcome_def)
  qed
qed

section \<open>The worker loop\<close>

lemma map_job_batch:
  "tailoring_jobs s task_id = Some b \<Longrightarrow>
   tailoring_jobs (map_job task_id i f s)
     = (tailoring_jobs s)(task_id \<mapsto>
          b\<lparr>individual_jobs := (individual_jobs b)[i := f (individual_jobs b ! i)]\<rparr>)"
  by (simp add: map_job_def)

lemma map_job_frame [simp]:
  "resume_storage (map_job task_id i f s) = resume_storage s"
  "extraction_status (map_job task_id i f s) = extraction_status s"
  "upload_files (map_job task_id i f s) = upload_files s"
  by (simp_all add: map_job_def split: option.splits)

text \<open>The loop over the positions \<open>k, k+1, ...\<close> of a batch that has them all.\<close>

lemma tailoring_loop_from:
  assumes "tailoring_jobs s task_id = Some b"
    and "k + length job_descs \<le> length (individual_jobs b)"
    and "\<forall>j. k \<le> j \<and> j < k + length job_descs \<longrightarrow> benign (env j)"
  shows "\<exists>s' jobs'.
      for_each (enumerate k job_descs)
        (\<lambda>(i, job_desc_data). process_job task_id rid i job_desc_data (env i)) s = (s', None)
      \<and> tailoring_jobs s' = (tailoring_jobs s)(task_id \<mapsto> b\<lparr>individual_jobs := jobs'\<rparr>)
      \<and> length jobs' = length (individual_jobs b)
      \<and> (\<forall>j < length (individual_jobs b).
            jobs' ! j = (if k \<le> j \<and> j < k + length job_descs
                         then job_outcome rid (job_descs ! (j - k)) j (env j) (individual_jobs b ! j)
                         else individual_jobs b ! j))
      \<and> resume_storage s' = resume_storage s
      \<and> extraction_status s' = extraction_status s
      \<and> upload_files s' = upload_files s"
  using assms
proof (induction job_descs arbitrary: k s b)
  case Nil
  have "b\<lparr>individual_jobs := individual_jobs b\<rparr> = b" by simp
  with Nil show ?case
    by (intro exI [of _ s] exI [of _ "individual_jobs b"]) (auto simp: map_upd_triv)
next
  case (Cons jd jds)
  let ?body = "\<lambda>(i, job_desc_data). process_job task_id rid i job_desc_data (env i)"
  let ?jobs = "individual_jobs b"
  let ?s1 = "(map_job task_id k (job_outcome rid jd k (env k)) s)
      \<lparr>tailored_files := files_outcome rid jd k (env k) (tailored_files s)\<rparr>"
  let ?b1 = "b\<lparr>individual_jobs := ?jobs[k := job_outcome rid jd k (env k) (?jobs ! k)]\<rparr>"
  from Cons.prems have k: "k < length ?jobs" by simp
  with Cons.prems have "job_in_range task_id k s" by (simp add: job_in_range_def)
  moreover from Cons.prems(3) have "benign (env k)" by simp
  ultimately have step: "process_job task_id rid k jd (env k) s = (?s1, None)"
    by (rule process_job_eq)
  have b1: "tailoring_jobs ?s1 task_id = Some ?b1"
    using Cons.prems(1) by (simp add: map_job_batch)
  have len: "Suc k + length jds \<le> length (individual_jobs ?b1)"
    using Cons.prems(2) by simp
  from Cons.prems(3)
  have ben: "\<forall>j. Suc k \<le> j \<and> j < Suc k + length jds \<longrightarrow> benign (env j)" by simp
  from Cons.IH [OF b1 len ben] obtain s' jobs' where
    run: "for_each (enumerate (Suc k) jds) ?body ?s1 = (s', None)"
    and tj: "tailoring_jobs s' = (tailoring_jobs ?s1)(task_id \<mapsto> ?b1\<lparr>individual_jobs := jobs'\<rparr>)"
    and ln: "length jobs' = length (individual_jobs ?b1)"
    and nth: "\<forall>j < length (individual_jobs ?b1).
            jobs' ! j = (if Suc k \<le> j \<and> j < Suc k + length jds
                         then job_outcome rid (jds ! (j - Suc k)) j (env j) (individual_jobs ?b1 ! j)
                         else individual_jobs ?b1 ! j)"
    and fr: "resume_storage s' = resume_storage ?s1" "extraction_status s' = extraction_status ?s1"
       "upload_files s' = upload_files ?s1"
    by blast
  have r: "for_each (enumerate k (jd # jds)) ?body s = (s', None)"
    using step run by simp
  have t: "tailoring_jobs s' = (tailoring_jobs s)(task_id \<mapsto> b\<lparr>individual_jobs := jobs'\<rparr>)"
    using tj Cons.prems(1) by (simp add: map_job_batch)
  have l: "length jobs' = length ?jobs" using ln by simp
  have n: "\<forall>j < length ?jobs.
            jobs' ! j = (if k \<le> j \<and> j < k + length (jd # jds)
                         then job_outcome rid ((jd # jds) ! (j - k)) j (env j) (?jobs ! j)
                         else ?jobs ! j)"
  proof (intro allI impI)
    fix j assume j: "j < length ?jobs"
    with nth have e: "jobs' ! j = (if Suc k \<le> j \<and> j < Suc k + length jds
                         then job_outcome rid (jds ! (j - Suc k)) j (env j) (individual_jobs ?b1 ! j)
                         else individual_jobs ?b1 ! j)" by simp
    show "jobs' ! j = (if k \<le> j \<and> j < k + length (jd # jds)
                         then job_outcome rid ((jd # jds) ! (j - k)) j (env j) (?jobs ! j)
                         else ?jobs ! j)"
    proof (cases "j = k")
      case True
      with e k show ?thesis by simp
    next
      case False
      with e j show ?thesis by (auto simp: nth_Cons' Suc_diff_Suc)
    qed
  qed
  from r t l n fr show ?case by (intro exI [of _ s'] exI [of _ jobs']) simp
qed


section \<open>The whole run of the worker\<close>

lemma set_batch_ok:
  "tailoring_jobs s task_id = Some b \<Longrightarrow>
   set_batch task_id f s = (s\<lparr>tailoring_jobs := (tailoring_jobs s)(task_id \<mapsto> f b)\<rparr>, None)"
  by (simp add: set_batch_def)

lemma check_completion_ok:
  "tailoring_jobs s task_id = Some b \<Longrightarrow>
   check_completion task_id s
     = (s\<lparr>tailoring_jobs := (tailoring_jobs s)(task_id \<mapsto> aggregate b)\<rparr>, None)"
  by (simp add: check_completion_def aggregate_def Let_def seq_def set_batch_ok)

lemma check_completion_returns:
  assumes "check_completion task_id s = (s', None)"
  shows "\<exists>b. tailoring_jobs s task_id = Some b \<and> tailoring_jobs s' task_id = Some (aggregate b)"
proof (cases "tailoring_jobs s task_id")
  case None
  with assms show ?thesis by (simp add: check_completion_def)
next
  case (Some b)
  with assms check_completion_ok [OF Some] show ?thesis by auto
qed

lemma individual_jobs_aggregate [simp]: "individual_jobs (aggregate b) = individual_jobs b"
  by (simp add: aggregate_def Let_def)

lemma perform_tailoring_body_returns:
  assumes "perform_tailoring_body task_id env s = (s', None)"
  shows "\<exists>s2. check_completion task_id s2 = (s', None)"
  using assms
  by (auto simp: perform_tailoring_body_def seq_def set_batch_def
           split: option.splits prod.splits)

lemma count_pos_iff: "0 < length (filter P xs) \<longleftrightarrow> (\<exists>x \<in> set xs. P x)"
  by (simp add: filter_empty_conv)

lemma count_all_iff: "length (filter P xs) = length xs \<longleftrightarrow> (\<forall>x \<in> set xs. P x)"
  by (metis filter_True length_filter_less nat_less_le filter_id_conv)

lemma aggregate_status:
  "tb_status (aggregate b)
     = (if \<exists>job \<in> set (individual_jobs b). job_status job = Completed then Completed else Failed)"
  by (auto simp: aggregate_def Let_def filter_empty_conv)

lemma aggregate_message:
  "tb_error_message (aggregate b)
     = (if \<exists>job \<in> set (individual_jobs b). job_status job = Completed
        then if \<forall>job \<in> set (individual_jobs b). job_status job = Completed
             then tb_error_message b
             else Some (partial_failure_message
                    (length (filter (\<lambda>job. job_status job = Completed) (individual_jobs b)))
                    (length (individual_jobs b))
                    (length (filter (\<lambda>job. job_status job = Failed) (individual_jobs b))))
        else Some ''All jobs failed to process'')"
  by (auto simp: aggregate_def Let_def filter_empty_conv count_all_iff)

text \<open>The whole run of the worker on a batch that has a record for each of its job
  descriptions, and whose resume has an extraction record.\<close>

lemma perform_tailoring_result:
  assumes b: "tailoring_jobs s task_id = Some b"
    and len: "length (job_descriptions b) \<le> length (individual_jobs b)"
    and ex: "extraction_status s (tb_resume_id b) \<noteq> None"
    and ben: "\<forall>j < length (job_descriptions b). benign (env j)"
  shows "\<exists>s' jobs'.
      perform_tailoring_body task_id env s = (s', None)
      \<and> perform_tailoring task_id env s = (s', None)
      \<and> tailoring_jobs s' = (tailoring_jobs s)(task_id \<mapsto>
            aggregate (b\<lparr>tb_status := Processing, individual_jobs := jobs'\<rparr>))
      \<and> length jobs' = length (individual_jobs b)
      \<and> (\<forall>j < length (individual_jobs b).
            jobs' ! j = (if j < length (job_descriptions b)
                         then job_outcome (tb_resume_id b) (job_descriptions b ! j) j (env j)
                                (individual_jobs b ! j)
                         else individual_jobs b ! j))
      \<and> resume_storage s' = resume_storage s
      \<and> extraction_status s' = extraction_status s
      \<and> upload_files s' = upload_files s"
proof -
  let ?b1 = "b\<lparr>tb_status := Processing\<rparr>"
  let ?s1 = "s\<lparr>tailoring_jobs := (tailoring_jobs s)(task_id \<mapsto> ?b1)\<rparr>"
  have b1: "tailoring_jobs ?s1 task_id = Some ?b1" by simp
  have l1: "0 + length (job_descriptions b) \<le> length (individual_jobs ?b1)" using len by simp
  from ben
  have b0: "\<forall>j. 0 \<le> j \<and> j < 0 + length (job_descriptions b) \<longrightarrow> benign (env j)" by simp
  from tailoring_loop_from [OF b1 l1 b0, of "tb_resume_id b"] obtain s2 jobs' where
    loop: "tailoring_loop task_id (tb_resume_id b) (job_descriptions b) env ?s1 = (s2, None)"
    and tj: "tailoring_jobs s2 = (tailoring_jobs ?s1)(task_id \<mapsto> ?b1\<lparr>individual_jobs := jobs'\<rparr>)"
    and ln: "length jobs' = length (individual_jobs ?b1)"
    and nth: "\<forall>j < length (individual_jobs ?b1).
            jobs' ! j = (if 0 \<le> j \<and> j < 0 + length (job_descriptions b)
                         then job_outcome (tb_resume_id b) (job_descriptions b ! (j - 0)) j (env j)
                                (individual_jobs ?b1 ! j)
                         else individual_jobs ?b1 ! j)"
    and fr: "resume_storage s2 = resume_storage ?s1" "extraction_status s2 = extraction_status ?s1"
       "upload_files s2 = upload_files ?s1"
    unfolding tailoring_loop_def by blast
  let ?b2 = "?b1\<lparr>individual_jobs := jobs'\<rparr>"
  let ?s' = "s2\<lparr>tailoring_jobs := (tailoring_jobs s2)(task_id \<mapsto> aggregate ?b2)\<rparr>"
  from tj have b2: "tailoring_jobs s2 task_id = Some ?b2" by simp
  have fin: "check_completion task_id s2 = (?s', None)"
    by (rule check_completion_ok [OF b2])
  from ex obtain e where e: "extraction_status ?s1 (tb_resume_id b) = Some e" by auto
  have body: "perform_tailoring_body task_id env s = (?s', None)"
    using b e loop fin by (simp add: perform_tailoring_body_def seq_def set_batch_ok)
  then have whole: "perform_tailoring task_id env s = (?s', None)"
    by (simp add: perform_tailoring_def try_except_def)
  have t: "tailoring_jobs ?s' = (tailoring_jobs s)(task_id \<mapsto>
            aggregate (b\<lparr>tb_status := Processing, individual_jobs := jobs'\<rparr>))"
    using tj by simp
  from nth have n: "\<forall>j < length (individual_jobs b).
            jobs' ! j = (if j < length (job_descriptions b)
                         then job_outcome (tb_resume_id b) (job_descriptions b ! j) j (env j)
                                (individual_jobs b ! j)
                         else individual_jobs b ! j)" by simp
  from body whole t ln n fr show ?thesis
    by (intro exI [of _ ?s'] exI [of _ jobs']) simp
qed



section \<open>The outcome of a batch\<close>

text \<open>A run on the example batch: the first subjob fails, the second completes.\<close>

lemma two_element_list: "length xs = 2 \<Longrightarrow> xs = [xs ! 0, xs ! 1]"
proof -
  assume l: "length xs = 2"
  then obtain a ys where xs: "xs = a # ys" by (cases xs) auto
  with l obtain c zs where ys: "ys = c # zs" by (cases ys) auto
  with l xs have "zs = []" by simp
  with xs ys show ?thesis by simp
qed

lemma example_submitted_batch:
  "tailoring_jobs example_submitted ''t1''
     = Some \<lparr>tb_resume_id = ''r1'',
             job_descriptions = [[''title'' \<mapsto> ''A'', ''company'' \<mapsto> ''X''],
                                 [''title'' \<mapsto> ''B'', ''company'' \<mapsto> ''Y'']],
             tb_status = Pending,
             individual_jobs = [new_subjob 0 [''title'' \<mapsto> ''A'', ''company'' \<mapsto> ''X''],
                                new_subjob 1 [''title'' \<mapsto> ''B'', ''company'' \<mapsto> ''Y'']],
             tb_error_message = None,
             created_at = ''now''\<rparr>"
  "extraction_status example_submitted ''r1''
     = Some \<lparr>es_status = Completed, extracted_data = example_data, es_error_message = None\<rparr>"
  by (simp_all add: example_submitted_def example_request_def example_completed_def
        example_state_simps example_data_def tailor_resume_def enumerate_eq_zip upt_rec)

lemma example_run:
  "\<exists>s' b'. perform_tailoring_body ''t1'' example_env example_submitted = (s', None)
     \<and> perform_tailoring ''t1'' example_env example_submitted = (s', None)
     \<and> tailoring_jobs s' ''t1'' = Some b'
     \<and> map job_status (individual_jobs b') = [Failed, Completed]
     \<and> map job_error_message (individual_jobs b') = [Some ''boom'', None]
     \<and> tb_status b' = Completed
     \<and> tb_error_message b' = Some ''1 out of 2 jobs completed successfully. 1 jobs failed.''"
proof -
  let ?b = "\<lparr>tb_resume_id = ''r1'',
             job_descriptions = [[''title'' \<mapsto> ''A'', ''company'' \<mapsto> ''X''],
                                 [''title'' \<mapsto> ''B'', ''company'' \<mapsto> ''Y'']],
             tb_status = Pending,
             individual_jobs = [new_subjob 0 [''title'' \<mapsto> ''A'', ''company'' \<mapsto> ''X''],
                                new_subjob 1 [''title'' \<mapsto> ''B'', ''company'' \<mapsto> ''Y'']],
             tb_error_message = None,
             created_at = ''now''\<rparr>"
  have b: "tailoring_jobs example_submitted ''t1'' = Some ?b" by (rule example_submitted_batch)
  have l: "length (job_descriptions ?b) \<le> length (individual_jobs ?b)" by simp
  have e: "extraction_status example_submitted (tb_resume_id ?b) \<noteq> None"
    by (simp add: example_submitted_batch)
  have ben: "\<forall>j < length (job_descriptions ?b). benign (example_env j)"
    by (simp add: benign_def example_env_def)
  from perform_tailoring_result [OF b l e ben] obtain s' jobs' where
    body: "perform_tailoring_body ''t1'' example_env example_submitted = (s', None)"
    and whole: "perform_tailoring ''t1'' example_env example_submitted = (s', None)"
    and tj: "tailoring_jobs s' = (tailoring_jobs example_submitted)(''t1'' \<mapsto>
            aggregate (?b\<lparr>tb_status := Processing, individual_jobs := jobs'\<rparr>))"
    and ln: "length jobs' = length (individual_jobs ?b)"
    and nth: "\<forall>j < length (individual_jobs ?b).
            jobs' ! j = (if j < length (job_descriptions ?b)
                         then job_outcome (tb_resume_id ?b) (job_descriptions ?b ! j) j (example_env j)
                                (individual_jobs ?b ! j)
                         else individual_jobs ?b ! j)"
    by blast
  from ln have "length jobs' = 2" by simp
  then have shape: "jobs' = [jobs' ! 0, jobs' ! 1]" by (rule two_element_list)
  from nth have "jobs' ! 0 = job_outcome ''r1'' [''title'' \<mapsto> ''A'', ''company'' \<mapsto> ''X''] 0
      (example_env 0) (new_subjob 0 [''title'' \<mapsto> ''A'', ''company'' \<mapsto> ''X''])"
    by simp
  then have j0: "job_status (jobs' ! 0) = Failed" "job_error_message (jobs' ! 0) = Some ''boom''"
    by (simp_all add: job_outcome_def example_env_def mark_failed_def)
  from nth have "jobs' ! 1 = job_outcome ''r1'' [''title'' \<mapsto> ''B'', ''company'' \<mapsto> ''Y''] 1
      (example_env 1) (new_subjob 1 [''title'' \<mapsto> ''B'', ''company'' \<mapsto> ''Y''])"
    by simp
  then have j1: "job_status (jobs' ! 1) = Completed" "job_error_message (jobs' ! 1) = None"
    by (simp_all add: job_outcome_def example_env_def mark_completed_def)
  have "map job_status [jobs' ! 0, jobs' ! 1] = [Failed, Completed]" using j0 j1 by simp
  with shape have st: "map job_status jobs' = [Failed, Completed]" by simp
  have "map job_error_message [jobs' ! 0, jobs' ! 1] = [Some ''boom'', None]" using j0 j1 by simp
  with shape have er: "map job_error_message jobs' = [Some ''boom'', None]" by simp
  let ?b' = "aggregate (?b\<lparr>tb_status := Processing, individual_jobs := jobs'\<rparr>)"
  have c: "filter (\<lambda>job. job_status job = Completed) [jobs' ! 0, jobs' ! 1] = [jobs' ! 1]"
    and f: "filter (\<lambda>job. job_status job = Failed) [jobs' ! 0, jobs' ! 1] = [jobs' ! 0]"
    using j0 j1 by simp_all
  have cnt: "length (filter (\<lambda>job. job_status job = Completed) jobs') = 1"
    "length (filter (\<lambda>job. job_status job = Failed) jobs') = 1"
    "length jobs' = 2"
    using c f shape by (metis length_Cons list.size(3) One_nat_def, metis length_Cons list.size(3) One_nat_def, simp add: \<open>length jobs' = 2\<close>)
  have msg: "partial_failure_message 1 2 1
      = ''1 out of 2 jobs completed successfully. 1 jobs failed.''"
    by (simp add: partial_failure_message_def str_nat.simps digit_char_def)
  have s1: "tb_status ?b' = Completed"
    by (simp add: aggregate_def Let_def cnt)
  have s2: "tb_error_message ?b' = Some ''1 out of 2 jobs completed successfully. 1 jobs failed.''"
    using msg by (simp add: aggregate_def Let_def cnt)
  have t: "tailoring_jobs s' ''t1'' = Some ?b'" using tj by simp
  from body whole t st er s1 s2 show ?thesis
    by (intro exI [of _ s'] exI [of _ ?b']) simp
qed

text \<open>
  C1. When the run of the worker for a batch finishes normally (no exception leaves the
  body of \<open>perform_tailoring\<close>) and every subjob is then in a terminal state, the state
  of the batch is \<open>completed\<close> exactly when at least one subjob is \<open>completed\<close>, with the
  advisory partial-failure message when some subjob failed, and it is \<open>failed\<close> exactly
  when every subjob is \<open>failed\<close>, then with the message "All jobs failed to process".
\<close>

theorem batch_final_state:
  assumes "snd (perform_tailoring_body task_id env s) = None"
  shows "\<exists>b'. perform_tailoring task_id env s = perform_tailoring_body task_id env s
     \<and> tailoring_jobs (fst (perform_tailoring task_id env s)) task_id = Some b'
     \<and> ((\<forall>job \<in> set (individual_jobs b'). job_status job = Completed \<or> job_status job = Failed)
        \<longrightarrow> (tb_status b' = Completed
               \<longleftrightarrow> (\<exists>job \<in> set (individual_jobs b'). job_status job = Completed))
          \<and> (tb_status b' = Failed
               \<longleftrightarrow> (\<forall>job \<in> set (individual_jobs b'). job_status job = Failed))
          \<and> ((\<exists>job \<in> set (individual_jobs b'). job_status job = Completed)
               \<and> (\<exists>job \<in> set (individual_jobs b'). job_status job = Failed)
              \<longrightarrow> tb_error_message b'
                   = Some (partial_failure_message
                       (length (filter (\<lambda>job. job_status job = Completed) (individual_jobs b')))
                       (length (individual_jobs b'))
                       (length (filter (\<lambda>job. job_status job = Failed) (individual_jobs b')))))
          \<and> ((\<forall>job \<in> set (individual_jobs b'). job_status job = Failed)
              \<longrightarrow> tb_error_message b' = Some ''All jobs failed to process''))"
proof -
  obtain s' where body: "perform_tailoring_body task_id env s = (s', None)"
    using assms by (cases "perform_tailoring_body task_id env s") auto
  then have whole: "perform_tailoring task_id env s = perform_tailoring_body task_id env s"
    by (simp add: perform_tailoring_def try_except_def)
  from perform_tailoring_body_returns [OF body] obtain s2 where
    "check_completion task_id s2 = (s', None)" by blast
  from check_completion_returns [OF this] obtain b2 where
    b': "tailoring_jobs s' task_id = Some (aggregate b2)" by blast
  let ?jobs = "individual_jobs b2"
  have st: "\<forall>job \<in> set ?jobs. job_status job = Completed \<or> job_status job = Failed \<Longrightarrow>
      (\<forall>job \<in> set ?jobs. job_status job = Failed)
        \<longleftrightarrow> \<not> (\<exists>job \<in> set ?jobs. job_status job = Completed)"
    by auto
  have "(\<forall>job \<in> set ?jobs. job_status job = Completed \<or> job_status job = Failed)
        \<longrightarrow> (tb_status (aggregate b2) = Completed
               \<longleftrightarrow> (\<exists>job \<in> set ?jobs. job_status job = Completed))
          \<and> (tb_status (aggregate b2) = Failed
               \<longleftrightarrow> (\<forall>job \<in> set ?jobs. job_status job = Failed))
          \<and> ((\<exists>job \<in> set ?jobs. job_status job = Completed)
               \<and> (\<exists>job \<in> set ?jobs. job_status job = Failed)
              \<longrightarrow> tb_error_message (aggregate b2)
                   = Some (partial_failure_message
                       (length (filter (\<lambda>job. job_status job = Completed) ?jobs))
                       (length ?jobs)
                       (length (filter (\<lambda>job. job_status job = Failed) ?jobs))))
          \<and> ((\<forall>job \<in> set ?jobs. job_status job = Failed)
              \<longrightarrow> tb_error_message (aggregate b2) = Some ''All jobs failed to process'')"
    using st by (auto simp: aggregate_status aggregate_message)
  with b' body whole show ?thesis
    by (intro exI [of _ "aggregate b2"]) simp
qed

theorem batch_final_state_witness:
  "snd (perform_tailoring_body ''t1'' example_env example_submitted) = None
   \<and> (\<exists>b'. tailoring_jobs (fst (perform_tailoring ''t1'' example_env example_submitted)) ''t1''
             = Some b'
          \<and> map job_status (individual_jobs b') = [Failed, Completed]
          \<and> tb_status b' = Completed
          \<and> tb_error_message b'
             = Some (partial_failure_message
                 (length (filter (\<lambda>job. job_status job = Completed) (individual_jobs b')))
                 (length (individual_jobs b'))
                 (length (filter (\<lambda>job. job_status job = Failed) (individual_jobs b'))))
          \<and> tb_error_message b' = Some ''1 out of 2 jobs completed successfully. 1 jobs failed.'')"
proof -
  from example_run obtain s' b' where
    body: "perform_tailoring_body ''t1'' example_env example_submitted = (s', None)"
    and whole: "perform_tailoring ''t1'' example_env example_submitted = (s', None)"
    and t: "tailoring_jobs s' ''t1'' = Some b'"
    and st: "map job_status (individual_jobs b') = [Failed, Completed]"
    and msg: "tb_error_message b' = Some ''1 out of 2 jobs completed successfully. 1 jobs failed.''"
    by (elim exE conjE) (rule that, assumption+)
  have h: "snd (perform_tailoring_body ''t1'' example_env example_submitted) = None"
    using body by simp
  from st obtain x y where jobs: "individual_jobs b' = [x, y]"
    and x: "job_status x = Failed" and y: "job_status y = Completed"
    by (auto simp: map_eq_Cons_conv)
  from batch_final_state [OF h] obtain b'' where
    w: "tailoring_jobs (fst (perform_tailoring ''t1'' example_env example_submitted)) ''t1'' = Some b''"
    and imp: "(\<forall>job \<in> set (individual_jobs b''). job_status job = Completed \<or> job_status job = Failed)
        \<longrightarrow> (tb_status b'' = Completed
               \<longleftrightarrow> (\<exists>job \<in> set (individual_jobs b''). job_status job = Completed))
          \<and> (tb_status b'' = Failed
               \<longleftrightarrow> (\<forall>job \<in> set (individual_jobs b''). job_status job = Failed))
          \<and> ((\<exists>job \<in> set (individual_jobs b''). job_status job = Completed)
               \<and> (\<exists>job \<in> set (individual_jobs b''). job_status job = Failed)
              \<longrightarrow> tb_error_message b''
                   = Some (partial_failure_message
                       (length (filter (\<lambda>job. job_status job = Completed) (individual_jobs b'')))
                       (length (individual_jobs b''))
                       (length (filter (\<lambda>job. job_status job = Failed) (individual_jobs b'')))))
          \<and> ((\<forall>job \<in> set (individual_jobs b''). job_status job = Failed)
              \<longrightarrow> tb_error_message b'' = Some ''All jobs failed to process'')"
    by (elim exE conjE) (rule that, assumption+)
  from w whole t have same: "b'' = b'" by simp
  from imp jobs x y have status: "tb_status b' = Completed"
    and partial: "tb_error_message b'
             = Some (partial_failure_message
                 (length (filter (\<lambda>job. job_status job = Completed) (individual_jobs b')))
                 (length (individual_jobs b'))
                 (length (filter (\<lambda>job. job_status job = Failed) (individual_jobs b'))))"
    unfolding same by simp_all
  from w same have "tailoring_jobs (fst (perform_tailoring ''t1'' example_env example_submitted)) ''t1''
             = Some b'" by simp
  with h st status partial msg show ?thesis
    by (intro conjI exI [of _ b']) assumption+
qed


section \<open>An empty submission\<close>

lemma aggregate_empty:
  "individual_jobs b = [] \<Longrightarrow>
   aggregate b = b\<lparr>tb_status := Failed, tb_error_message := Some ''All jobs failed to process''\<rparr>"
  by (simp add: aggregate_def Let_def)

text \<open>
  C10. A submission with an empty list of job descriptions, all preconditions holding,
  succeeds and creates a batch without subjobs; the run of the worker then returns and
  leaves the batch in state \<open>failed\<close> with the message "All jobs failed to process",
  although there is no subjob and none failed.
\<close>

theorem empty_batch_fails:
  assumes known: "resume_storage s (resume_id request) \<noteq> None"
    and entry: "extraction_status s (resume_id request) = Some e"
    and completed: "es_status e = Completed"
    and data: "truthy (extracted_data e)"
    and empty: "req_job_descriptions request = []"
  shows "\<exists>s1 b1 s2 b2.
      tailor_resume request task_id now s
        = (s1, Inr (TailorResponse task_id ''Resume tailoring started'' Processing))
      \<and> tailoring_jobs s1 task_id = Some b1
      \<and> individual_jobs b1 = []
      \<and> perform_tailoring_body task_id env s1 = (s2, None)
      \<and> perform_tailoring task_id env s1 = (s2, None)
      \<and> tailoring_jobs s2 task_id = Some b2
      \<and> individual_jobs b2 = []
      \<and> tb_status b2 = Failed
      \<and> tb_error_message b2 = Some ''All jobs failed to process''"
proof -
  let ?b1 = "\<lparr>tb_resume_id = resume_id request, job_descriptions = [],
              tb_status = Pending, individual_jobs = [], tb_error_message = None,
              created_at = now\<rparr>"
  let ?s1 = "s\<lparr>tailoring_jobs := (tailoring_jobs s)(task_id \<mapsto> ?b1)\<rparr>"
  have submit: "tailor_resume request task_id now s
        = (?s1, Inr (TailorResponse task_id ''Resume tailoring started'' Processing))"
    using assms by (auto simp: tailor_resume_def)
  have b1: "tailoring_jobs ?s1 task_id = Some ?b1" by simp
  have l: "length (job_descriptions ?b1) \<le> length (individual_jobs ?b1)" by simp
  have ex: "extraction_status ?s1 (tb_resume_id ?b1) \<noteq> None" using entry by simp
  have ben: "\<forall>j < length (job_descriptions ?b1). benign (env j)" by simp
  from perform_tailoring_result [OF b1 l ex ben] obtain s2 jobs' where
    body: "perform_tailoring_body task_id env ?s1 = (s2, None)"
    and whole: "perform_tailoring task_id env ?s1 = (s2, None)"
    and tj: "tailoring_jobs s2 = (tailoring_jobs ?s1)(task_id \<mapsto>
            aggregate (?b1\<lparr>tb_status := Processing, individual_jobs := jobs'\<rparr>))"
    and ln: "length jobs' = length (individual_jobs ?b1)"
    by (elim exE conjE) (rule that, assumption+)
  from ln have nil: "jobs' = []" by simp
  let ?b2 = "aggregate (?b1\<lparr>tb_status := Processing, individual_jobs := jobs'\<rparr>)"
  from tj have b2: "tailoring_jobs s2 task_id = Some ?b2" by simp
  have r: "individual_jobs ?b2 = []" "tb_status ?b2 = Failed"
    "tb_error_message ?b2 = Some ''All jobs failed to process''"
    using nil by (simp_all add: aggregate_empty)
  from submit b1 body whole b2 r show ?thesis
    by (intro exI [of _ ?s1] exI [of _ ?b1] exI [of _ s2] exI [of _ ?b2] conjI)
      (assumption | simp)+
qed

theorem empty_batch_fails_witness:
  "resume_storage example_completed ''r1'' \<noteq> None
   \<and> truthy example_data
   \<and> (\<exists>s1 b1 s2 b2.
        tailor_resume \<lparr>resume_id = ''r1'', req_job_descriptions = []\<rparr> ''t1'' ''now''
            example_completed
          = (s1, Inr (TailorResponse ''t1'' ''Resume tailoring started'' Processing))
        \<and> tailoring_jobs s1 ''t1'' = Some b1
        \<and> individual_jobs b1 = []
        \<and> perform_tailoring_body ''t1'' example_env s1 = (s2, None)
        \<and> perform_tailoring ''t1'' example_env s1 = (s2, None)
        \<and> tailoring_jobs s2 ''t1'' = Some b2
        \<and> individual_jobs b2 = []
        \<and> tb_status b2 = Failed
        \<and> tb_error_message b2 = Some ''All jobs failed to process'')"
proof -
  let ?e = "\<lparr>es_status = Completed, extracted_data = example_data, es_error_message = None\<rparr>"
  let ?r = "\<lparr>resume_id = ''r1'', req_job_descriptions = []\<rparr>"
  have k: "resume_storage example_completed (resume_id ?r) \<noteq> None"
    by (simp add: example_completed_def example_state_simps)
  have en: "extraction_status example_completed (resume_id ?r) = Some ?e"
    by (simp add: example_completed_def example_state_simps)
  have c: "es_status ?e = Completed" by simp
  have d: "truthy (extracted_data ?e)" by (simp add: example_data_def)
  have em: "req_job_descriptions ?r = []" by simp
  from k have k': "resume_storage example_completed ''r1'' \<noteq> None" by simp
  from d have d': "truthy example_data" by simp
  from k' d' empty_batch_fails [OF k en c d em, of "''t1''" "''now''" example_env]
  show ?thesis by (intro conjI) assumption+
qed

section \<open>Failures inside one subjob\<close>









lemma files_outcome_ok:
  assumes "ai_result env = Returns (Some d)" and "json_write_error env = None"
  shows "files_outcome rid jd i env files (job_base_filename rid jd i @ ''.json'') = Some (PyDict d)"
    and "files_outcome rid jd i env files (job_base_filename rid jd i @ ''.pdf'')
           = (if pdf_generated env then Some (PyDict d)
              else files (job_base_filename rid jd i @ ''.pdf''))"
  using assms by (simp_all add: files_outcome_def)

text \<open>
  C6. For a subjob whose tailoring collaborator returns a result (and whose JSON artifact
  is written), the outcome of the PDF rendering does not decide the state: rendered or
  not, the subjob ends \<open>completed\<close> with its result stored, the \<open>json\<close> link points at the
  json artifact, and the \<open>pdf\<close> link points at the pdf artifact when it was rendered and
  at the conversion endpoint \<^verbatim>\<open>/api/download/<json key>/pdf\<close> otherwise.
\<close>

theorem pdf_failure_keeps_subjob_completed:
  assumes b: "tailoring_jobs s task_id = Some b"
    and i: "i < length (individual_jobs b)"
    and ai: "ai_result env = Returns (Some d)"
    and js: "json_write_error env = None"
  shows "\<exists>s' b'. process_job task_id rid i jd env s = (s', None)
     \<and> tailoring_jobs s' task_id = Some b'
     \<and> job_status (individual_jobs b' ! i) = Completed
     \<and> tailored_resume (individual_jobs b' ! i) = PyDict d
     \<and> job_error_message (individual_jobs b' ! i) = None
     \<and> download_links (individual_jobs b' ! i)
         = Some [(''json'', ''/api/download/'' @ job_base_filename rid jd i @ ''.json''),
                 (''pdf'', if pdf_generated env
                           then ''/api/download/'' @ job_base_filename rid jd i @ ''.pdf''
                           else ''/api/download/'' @ job_base_filename rid jd i @ ''.json''
                                  @ ''/pdf'')]
     \<and> tailored_files s' (job_base_filename rid jd i @ ''.json'') = Some (PyDict d)
     \<and> tailored_files s' (job_base_filename rid jd i @ ''.pdf'')
         = (if pdf_generated env then Some (PyDict d)
            else tailored_files s (job_base_filename rid jd i @ ''.pdf''))"
proof -
  let ?base = "job_base_filename rid jd i"
  let ?links = "make_download_links (?base @ ''.json'') (?base @ ''.pdf'') (pdf_generated env)"
  let ?s' = "(map_job task_id i (mark_completed (PyDict d) ?links) s)
        \<lparr>tailored_files := files_outcome rid jd i env (tailored_files s)\<rparr>"
  let ?b' = "b\<lparr>individual_jobs := (individual_jobs b)
                [i := mark_completed (PyDict d) ?links (individual_jobs b ! i)]\<rparr>"
  from b i have r: "job_in_range task_id i s" by (simp add: job_in_range_def)
  have run: "process_job task_id rid i jd env s = (?s', None)"
    by (rule process_job_completed [OF r ai js])
  have b': "tailoring_jobs ?s' task_id = Some ?b'"
    using b by (simp add: map_job_batch)
  have rec: "individual_jobs ?b' ! i = mark_completed (PyDict d) ?links (individual_jobs b ! i)"
    using i by simp
  have fields: "job_status (individual_jobs ?b' ! i) = Completed"
    "tailored_resume (individual_jobs ?b' ! i) = PyDict d"
    "job_error_message (individual_jobs ?b' ! i) = None"
    "download_links (individual_jobs ?b' ! i)
         = Some [(''json'', ''/api/download/'' @ ?base @ ''.json''),
                 (''pdf'', if pdf_generated env then ''/api/download/'' @ ?base @ ''.pdf''
                           else ''/api/download/'' @ ?base @ ''.json'' @ ''/pdf'')]"
    unfolding rec by (simp_all add: mark_completed_def make_download_links_def)
  have files: "tailored_files ?s' (?base @ ''.json'') = Some (PyDict d)"
    "tailored_files ?s' (?base @ ''.pdf'')
         = (if pdf_generated env then Some (PyDict d)
            else tailored_files s (?base @ ''.pdf''))"
    using files_outcome_ok [OF ai js, of rid jd i "tailored_files s"] by simp_all
  from run b' fields files show ?thesis
    by (intro exI [of _ ?s'] exI [of _ ?b'] conjI) assumption+
qed

theorem pdf_failure_keeps_subjob_completed_witness:
  "tailoring_jobs example_submitted ''t1'' \<noteq> None
   \<and> ai_result (example_env 1) = Returns (Some [(''summary'', PyStr ''tailored'')])
   \<and> json_write_error (example_env 1) = None
   \<and> pdf_generated (example_env 1) = False
   \<and> (\<exists>s' b'. process_job ''t1'' ''r1'' 1 [''title'' \<mapsto> ''B'', ''company'' \<mapsto> ''Y'']
                  (example_env 1) example_submitted = (s', None)
         \<and> tailoring_jobs s' ''t1'' = Some b'
         \<and> job_status (individual_jobs b' ! 1) = Completed
         \<and> tailored_resume (individual_jobs b' ! 1) = PyDict [(''summary'', PyStr ''tailored'')]
         \<and> download_links (individual_jobs b' ! 1)
             = Some [(''json'', ''/api/download/r1_Y_B_1.json''),
                     (''pdf'', ''/api/download/r1_Y_B_1.json/pdf'')]
         \<and> tailored_files s' ''r1_Y_B_1.json'' = Some (PyDict [(''summary'', PyStr ''tailored'')])
         \<and> tailored_files s' ''r1_Y_B_1.pdf'' = None)"
proof -
  let ?b = "\<lparr>tb_resume_id = ''r1'',
             job_descriptions = [[''title'' \<mapsto> ''A'', ''company'' \<mapsto> ''X''],
                                 [''title'' \<mapsto> ''B'', ''company'' \<mapsto> ''Y'']],
             tb_status = Pending,
             individual_jobs = [new_subjob 0 [''title'' \<mapsto> ''A'', ''company'' \<mapsto> ''X''],
                                new_subjob 1 [''title'' \<mapsto> ''B'', ''company'' \<mapsto> ''Y'']],
             tb_error_message = None,
             created_at = ''now''\<rparr>"
  let ?jd = "[''title'' \<mapsto> ''B'', ''company'' \<mapsto> ''Y'']"
  let ?d = "[(''summary'', PyStr ''tailored'')]"
  have b: "tailoring_jobs example_submitted ''t1'' = Some ?b" by (rule example_submitted_batch)
  have i: "1 < length (individual_jobs ?b)" by simp
  have ai: "ai_result (example_env 1) = Returns (Some ?d)" by (simp add: example_env_def)
  have js: "json_write_error (example_env 1) = None" by (simp add: example_env_def)
  have pg: "pdf_generated (example_env 1) = False" by (simp add: example_env_def)
  have "sanitize ''Y'' = ''Y''" "sanitize ''B'' = ''B''"
    by (simp_all add: sanitize_def rstrip_def keep_char_def isalnum_def isspace_def)
  then have base: "job_base_filename ''r1'' ?jd 1 = ''r1_Y_B_1''"
    by (simp add: job_base_filename_def base_filename_def dget_def str_nat.simps digit_char_def)
  have nofile: "tailored_files example_submitted ''r1_Y_B_1.pdf'' = None"
    by (simp add: example_submitted_def example_request_def example_completed_def
          example_state_simps example_data_def tailor_resume_def)
  from pdf_failure_keeps_subjob_completed
    [of example_submitted "''t1''" ?b 1 "example_env 1" ?d "''r1''" ?jd, OF b i ai js]
  obtain s' b' where
    run: "process_job ''t1'' ''r1'' 1 ?jd (example_env 1) example_submitted = (s', None)"
    and b': "tailoring_jobs s' ''t1'' = Some b'"
    and st: "job_status (individual_jobs b' ! 1) = Completed"
    and tr: "tailored_resume (individual_jobs b' ! 1) = PyDict ?d"
    and dl: "download_links (individual_jobs b' ! 1)
         = Some [(''json'', ''/api/download/'' @ job_base_filename ''r1'' ?jd 1 @ ''.json''),
                 (''pdf'', if pdf_generated (example_env 1)
                           then ''/api/download/'' @ job_base_filename ''r1'' ?jd 1 @ ''.pdf''
                           else ''/api/download/'' @ job_base_filename ''r1'' ?jd 1 @ ''.json''
                                  @ ''/pdf'')]"
    and fj: "tailored_files s' (job_base_filename ''r1'' ?jd 1 @ ''.json'') = Some (PyDict ?d)"
    and fp: "tailored_files s' (job_base_filename ''r1'' ?jd 1 @ ''.pdf'')
         = (if pdf_generated (example_env 1) then Some (PyDict ?d)
            else tailored_files example_submitted (job_base_filename ''r1'' ?jd 1 @ ''.pdf''))"
    by (elim exE conjE) (rule that, assumption+)
  from dl [unfolded base pg] have dl': "download_links (individual_jobs b' ! 1)
             = Some [(''json'', ''/api/download/r1_Y_B_1.json''),
                     (''pdf'', ''/api/download/r1_Y_B_1.json/pdf'')]"
    by simp
  from fj [unfolded base] have fj': "tailored_files s' ''r1_Y_B_1.json'' = Some (PyDict ?d)"
    by simp
  from fp [unfolded base pg] nofile have fp': "tailored_files s' ''r1_Y_B_1.pdf'' = None"
    by simp
  from b have nb: "tailoring_jobs example_submitted ''t1'' \<noteq> None" by simp
  from run b' st tr dl' fj' fp'
  have "\<exists>s' b'. process_job ''t1'' ''r1'' 1 ?jd (example_env 1) example_submitted = (s', None)
         \<and> tailoring_jobs s' ''t1'' = Some b'
         \<and> job_status (individual_jobs b' ! 1) = Completed
         \<and> tailored_resume (individual_jobs b' ! 1) = PyDict ?d
         \<and> download_links (individual_jobs b' ! 1)
             = Some [(''json'', ''/api/download/r1_Y_B_1.json''),
                     (''pdf'', ''/api/download/r1_Y_B_1.json/pdf'')]
         \<and> tailored_files s' ''r1_Y_B_1.json'' = Some (PyDict ?d)
         \<and> tailored_files s' ''r1_Y_B_1.pdf'' = None"
    by (intro exI [of _ s'] exI [of _ b'] conjI) assumption+
  with nb ai js pg show ?thesis by (intro conjI) assumption+
qed


section \<open>The subjobs of a batch\<close>

lemma seq_keeps:
  assumes "\<And>s. g (fst (p s)) = g s" and "\<And>s. g (fst (q s)) = g s"
  shows "g (fst (seq p q s)) = g s"
proof (cases "p s")
  case (Pair s' r)
  from assms(1) [of s] Pair have p: "g s' = g s" by simp
  show ?thesis
  proof (cases r)
    case None
    with Pair have "seq p q s = q s'" by (simp add: seq_def)
    with assms(2) [of s'] p show ?thesis by simp
  next
    case (Some e)
    with Pair have "seq p q s = (s', Some e)" by (simp add: seq_def)
    with p show ?thesis by simp
  qed
qed

lemma try_except_keeps:
  assumes "\<And>s. g (fst (body s)) = g s" and "\<And>e s. g (fst (handler e s)) = g s"
  shows "g (fst (try_except body handler s)) = g s"
proof (cases "body s")
  case (Pair s' r)
  from assms(1) [of s] Pair have p: "g s' = g s" by simp
  show ?thesis
  proof (cases r)
    case None
    with Pair have "try_except body handler s = (s', None)" by (simp add: try_except_def)
    with p show ?thesis by simp
  next
    case (Some x)
    show ?thesis
    proof (cases x)
      case (PyException e)
      with Some Pair have "try_except body handler s = handler e s'"
        by (simp add: try_except_def)
      with assms(2) [of e s'] p show ?thesis by simp
    next
      case (PyBaseException e)
      with Some Pair have "try_except body handler s = (s', Some (PyBaseException e))"
        by (simp add: try_except_def)
      with p show ?thesis by simp
    qed
  qed
qed

lemma for_each_keeps:
  assumes "\<And>x s. g (fst (body x s)) = g s"
  shows "g (fst (for_each xs body s)) = g s"
proof (induction xs arbitrary: s)
  case Nil
  show ?case by simp
next
  case (Cons x xs)
  show ?case
  proof (cases "body x s")
    case (Pair s' r)
    from assms [of x s] Pair have p: "g s' = g s" by simp
    show ?thesis
    proof (cases r)
      case None
      with Pair have "for_each (x # xs) body s = for_each xs body s'" by simp
      with Cons.IH [of s'] p show ?thesis by simp
    next
      case (Some e)
      with Pair have "for_each (x # xs) body s = (s', Some e)" by simp
      with p show ?thesis by simp
    qed
  qed
qed

lemma map_update_same:
  assumes "h (f (xs ! i)) = h (xs ! i)"
  shows "map h (xs[i := f (xs ! i)]) = map h xs"
proof (cases "i < length xs")
  case True
  have "map h (xs[i := f (xs ! i)]) = (map h xs)[i := h (f (xs ! i))]" by (rule map_update)
  also have "\<dots> = (map h xs)[i := map h xs ! i]" using assms True by simp
  also have "\<dots> = map h xs" by (rule list_update_id)
  finally show ?thesis .
next
  case False
  then have "xs[i := f (xs ! i)] = xs" by (simp add: list_update_beyond)
  then show ?thesis by simp
qed

lemma set_job_keeps:
  assumes "\<And>job. job_index (f job) = job_index job \<and> job_title (f job) = job_title job
                 \<and> company (f job) = company job"
  shows "shapes (fst (set_job task_id i f s)) = shapes s"
proof (cases "tailoring_jobs s task_id")
  case None
  then show ?thesis by (simp add: set_job_def)
next
  case (Some b)
  let ?h = "\<lambda>job. (job_index job, job_title job, company job)"
  have "?h (f (individual_jobs b ! i)) = ?h (individual_jobs b ! i)" using assms by simp
  then have "map ?h ((individual_jobs b)[i := f (individual_jobs b ! i)])
      = map ?h (individual_jobs b)" by (rule map_update_same)
  then have same: "batch_shape (b\<lparr>individual_jobs :=
      (individual_jobs b)[i := f (individual_jobs b ! i)]\<rparr>) = batch_shape b"
    by (simp add: batch_shape_def)
  show ?thesis
  proof (rule ext)
    fix t
    show "shapes (fst (set_job task_id i f s)) t = shapes s t"
      using Some same by (simp add: set_job_def shapes_def)
  qed
qed

lemma set_batch_keeps:
  assumes "\<And>b. batch_shape (f b) = batch_shape b"
  shows "shapes (fst (set_batch task_id f s)) = shapes s"
proof (rule ext)
  fix t
  show "shapes (fst (set_batch task_id f s)) t = shapes s t"
    using assms by (simp add: set_batch_def shapes_def split: option.splits)
qed

lemma set_progress_keeps: "shapes (fst (set_progress task_id i msg s)) = shapes s"
  unfolding set_progress_def by (rule set_job_keeps) simp

lemma mark_failed_keeps: "shapes (fst (set_job task_id i (mark_failed e) s)) = shapes s"
  by (rule set_job_keeps) (simp add: mark_failed_def)

lemma write_json_keeps: "shapes (fst (write_json name d err s)) = shapes s"
  by (rule ext) (simp add: write_json_def shapes_def split: option.splits)

lemma generate_pdf_keeps: "shapes (fst (generate_pdf name d ok s)) = shapes s"
  by (rule ext) (simp add: generate_pdf_def shapes_def)

lemma raise_keeps: "shapes (fst (raise e s)) = shapes s"
  by (simp add: raise_def)

lemma job_begin_keeps: "shapes (fst (job_begin task_id i s)) = shapes s"
  unfolding job_begin_def
  by (intro seq_keeps set_progress_keeps set_job_keeps) simp

lemma job_except_keeps: "shapes (fst (job_except task_id i e s)) = shapes s"
  unfolding job_except_def by (rule mark_failed_keeps)

lemma job_complete_keeps: "shapes (fst (job_complete task_id rid i jd env s)) = shapes s"
proof (cases "ai_result env")
  case (Raises e)
  then show ?thesis by (simp add: job_complete_def raise_keeps)
next
  case (Returns r)
  show ?thesis
  proof (cases r)
    case None
    with Returns show ?thesis by (simp add: job_complete_def mark_failed_keeps)
  next
    case (Some d)
    have "\<And>links s. shapes (fst (set_job task_id i (mark_completed (PyDict d) links) s))
        = shapes s"
      by (rule set_job_keeps) (simp add: mark_completed_def)
    with Returns Some show ?thesis
      unfolding job_complete_def Let_def
      by (simp add: seq_keeps set_progress_keeps write_json_keeps generate_pdf_keeps)
  qed
qed

lemma batch_except_keeps: "shapes (fst (batch_except task_id e s)) = shapes s"
  unfolding batch_except_def by (rule set_batch_keeps) (simp add: batch_shape_def)

lemma process_job_keeps: "shapes (fst (process_job task_id rid i jd env s)) = shapes s"
  unfolding process_job_def
  by (intro try_except_keeps seq_keeps job_begin_keeps job_complete_keeps job_except_keeps)

lemma check_completion_keeps: "shapes (fst (check_completion task_id s)) = shapes s"
proof (cases "tailoring_jobs s task_id")
  case None
  then show ?thesis by (simp add: check_completion_def)
next
  case (Some b)
  have 1: "\<And>s. shapes (fst (set_batch task_id (\<lambda>b. b\<lparr>tb_status := Completed\<rparr>) s)) = shapes s"
    by (rule set_batch_keeps) (simp add: batch_shape_def)
  have 2: "\<And>s. shapes (fst (set_batch task_id (\<lambda>b. b\<lparr>tb_status := Failed\<rparr>) s)) = shapes s"
    by (rule set_batch_keeps) (simp add: batch_shape_def)
  have 3: "\<And>m s. shapes (fst (set_batch task_id (\<lambda>b. b\<lparr>tb_error_message := m\<rparr>) s)) = shapes s"
    by (rule set_batch_keeps) (simp add: batch_shape_def)
  from Some show ?thesis
    by (simp add: check_completion_def Let_def seq_keeps 1 2 3)
qed

lemma tailoring_loop_keeps: "shapes (fst (tailoring_loop task_id rid jds env s)) = shapes s"
  unfolding tailoring_loop_def
  by (rule for_each_keeps) (simp add: split_def process_job_keeps)

lemma set_processing_keeps:
  "shapes (fst (set_batch task_id (\<lambda>b. b\<lparr>tb_status := Processing\<rparr>) s)) = shapes s"
  by (rule set_batch_keeps) (simp add: batch_shape_def)

lemma perform_tailoring_body_keeps:
  "shapes (fst (perform_tailoring_body task_id env s)) = shapes s"
proof (cases "tailoring_jobs s task_id")
  case None
  then show ?thesis by (simp add: perform_tailoring_body_def)
next
  case (Some b)
  have rest: "\<And>s'. shapes (fst ((case extraction_status s' (tb_resume_id b) of
                       None \<Rightarrow> (s', Some (PyException (key_error (tb_resume_id b))))
                     | Some e \<Rightarrow>
                         seq (tailoring_loop task_id (tb_resume_id b) (job_descriptions b) env)
                             (check_completion task_id) s'))) = shapes s'"
    by (simp add: seq_keeps tailoring_loop_keeps check_completion_keeps split: option.splits)
  have "shapes (fst (seq (set_batch task_id (\<lambda>b. b\<lparr>tb_status := Processing\<rparr>))
              (\<lambda>s'. case extraction_status s' (tb_resume_id b) of
                       None \<Rightarrow> (s', Some (PyException (key_error (tb_resume_id b))))
                     | Some e \<Rightarrow>
                         seq (tailoring_loop task_id (tb_resume_id b) (job_descriptions b) env)
                             (check_completion task_id) s') s)) = shapes s"
    by (rule seq_keeps) (rule set_processing_keeps, rule rest)
  with Some show ?thesis by (simp add: perform_tailoring_body_def)
qed

lemma perform_tailoring_keeps: "shapes (fst (perform_tailoring task_id env s)) = shapes s"
  unfolding perform_tailoring_def
  by (intro try_except_keeps perform_tailoring_body_keeps batch_except_keeps)

lemma worker_start_keeps: "shapes (fst (worker_start task_id s)) = shapes s"
  unfolding worker_start_def
proof (rule try_except_keeps)
  fix s
  show "shapes (fst (case tailoring_jobs s task_id of
              None \<Rightarrow> (s, Some (PyException (key_error task_id)))
            | Some job_data \<Rightarrow>
                seq (set_batch task_id (\<lambda>b. b\<lparr>tb_status := Processing\<rparr>))
                    (\<lambda>s'. case extraction_status s' (tb_resume_id job_data) of
                             None \<Rightarrow> (s', Some (PyException (key_error (tb_resume_id job_data))))
                           | Some e \<Rightarrow> (s', None)) s)) = shapes s"
  proof (cases "tailoring_jobs s task_id")
    case None
    then show ?thesis by simp
  next
    case (Some b)
    have "shapes (fst (seq (set_batch task_id (\<lambda>b. b\<lparr>tb_status := Processing\<rparr>))
                    (\<lambda>s'. case extraction_status s' (tb_resume_id b) of
                             None \<Rightarrow> (s', Some (PyException (key_error (tb_resume_id b))))
                           | Some e \<Rightarrow> (s', None)) s)) = shapes s"
      by (rule seq_keeps) (rule set_processing_keeps, simp split: option.splits)
    with Some show ?thesis by simp
  qed
next
  fix e s
  show "shapes (fst (batch_except task_id e s)) = shapes s" by (rule batch_except_keeps)
qed

lemma worker_job_begin_keeps: "shapes (fst (worker_job_begin task_id i s)) = shapes s"
  unfolding worker_job_begin_def
  by (intro try_except_keeps job_begin_keeps job_except_keeps batch_except_keeps)

lemma worker_job_complete_keeps: "shapes (fst (worker_job_complete task_id i env s)) = shapes s"
proof (cases "tailoring_jobs s task_id")
  case None
  then show ?thesis by (simp add: worker_job_complete_def)
next
  case (Some b)
  have "shapes (fst (try_except
            (try_except
               (job_complete task_id (tb_resume_id b) i (job_descriptions b ! i) env)
               (job_except task_id i))
            (batch_except task_id) s)) = shapes s"
    by (intro try_except_keeps job_complete_keeps job_except_keeps batch_except_keeps)
  with Some show ?thesis by (simp add: worker_job_complete_def)
qed

lemma worker_finish_keeps: "shapes (fst (worker_finish task_id s)) = shapes s"
  unfolding worker_finish_def
  by (intro try_except_keeps check_completion_keeps batch_except_keeps)

lemma handlers_keep:
  "shapes (fst (upload_resume fname ext fpath content rid now write_error s)) = shapes s"
  "shapes (fst (extract_resume_data rid s)) = shapes s"
  "shapes (perform_extraction py_str rid parsed s) = shapes s"
  "shapes (fst (get_extraction_status rid s)) = shapes s"
  "shapes (fst (update_resume_data rid updated_data s)) = shapes s"
  "shapes (fst (get_tailoring_status task_id s)) = shapes s"
  "shapes (fst (download_tailored_resume_pdf file_key ok s)) = shapes s"
proof -
  show "shapes (fst (upload_resume fname ext fpath content rid now write_error s)) = shapes s"
    by (rule ext) (simp add: upload_resume_def shapes_def split: option.splits)
  show "shapes (fst (extract_resume_data rid s)) = shapes s"
    by (rule ext) (simp add: extract_resume_data_def shapes_def Let_def)
  show "shapes (perform_extraction py_str rid parsed s) = shapes s"
    by (rule ext)
      (simp add: perform_extraction_def shapes_def Let_def
         split: option.splits outcome.splits exn.splits)
  show "shapes (fst (get_extraction_status rid s)) = shapes s"
    by (simp add: get_extraction_status_def split: option.splits)
  show "shapes (fst (update_resume_data rid updated_data s)) = shapes s"
    by (rule ext) (simp add: update_resume_data_def shapes_def split: option.splits)
  show "shapes (fst (get_tailoring_status task_id s)) = shapes s"
    by (simp add: get_tailoring_status_def Let_def split: option.splits)
  show "shapes (fst (download_tailored_resume_pdf file_key ok s)) = shapes s"
    by (rule ext)
      (simp add: download_tailored_resume_pdf_def shapes_def Let_def split: option.splits)
qed

lemma tailor_resume_keeps_others:
  assumes "t \<noteq> task_id"
  shows "shapes (fst (tailor_resume request task_id now s)) t = shapes s t"
  using assms by (simp add: tailor_resume_def shapes_def split: option.splits)

lemma step_keeps:
  assumes "step py_str ev s = Some s'" and "shapes s t = Some k"
  shows "shapes s' t = Some k"
proof (cases ev)
  case (Tailor request task_id now)
  with assms(1) have fresh: "tailoring_jobs s task_id = None"
    and s': "s' = fst (tailor_resume request task_id now s)"
    by (simp_all split: if_splits)
  from fresh assms(2) have "t \<noteq> task_id" by (auto simp: shapes_def)
  from tailor_resume_keeps_others [OF this] s' assms(2) show ?thesis by simp
next
  case (Upload fname ext fpath content rid now write_error)
  with assms show ?thesis by (auto simp: handlers_keep split: if_splits)
next
  case (Extract rid)
  with assms show ?thesis by (auto simp: handlers_keep)
next
  case (ExtractionDone rid parsed)
  with assms show ?thesis by (auto simp: handlers_keep)
next
  case (GetExtractionStatus rid)
  with assms show ?thesis by (auto simp: handlers_keep)
next
  case (UpdateResumeData rid d)
  with assms show ?thesis by (auto simp: handlers_keep)
next
  case (GetTailoringStatus task_id)
  with assms show ?thesis by (auto simp: handlers_keep)
next
  case (DownloadPdf file_key ok)
  with assms show ?thesis by (auto simp: handlers_keep)
next
  case (WorkerStart task_id)
  with assms show ?thesis by (auto simp: worker_start_keeps split: if_splits)
next
  case (WorkerJobBegin task_id i)
  with assms show ?thesis
    by (auto simp: worker_job_begin_keeps split: option.splits if_splits)
next
  case (WorkerJobComplete task_id i env)
  with assms show ?thesis
    by (auto simp: worker_job_complete_keeps split: option.splits if_splits)
next
  case (WorkerFinish task_id)
  with assms show ?thesis by (auto simp: worker_finish_keeps split: if_splits)
next
  case (WorkerRun task_id env)
  with assms show ?thesis by (auto simp: perform_tailoring_keeps split: if_splits)
qed

lemma run_keeps:
  assumes "run py_str evs s = Some s'" and "shapes s t = Some k"
  shows "shapes s' t = Some k"
  using assms
proof (induction evs arbitrary: s)
  case Nil
  then show ?case by simp
next
  case (Cons ev evs)
  from Cons.prems(1) obtain s1 where st: "step py_str ev s = Some s1"
    and rest: "run py_str evs s1 = Some s'"
    by (auto split: option.splits)
  from step_keeps [OF st Cons.prems(2)] have "shapes s1 t = Some k" .
  from Cons.IH [OF rest this] show ?case .
qed

lemma tailor_resume_accepted:
  assumes "snd (tailor_resume request task_id now s) = Inr response"
  shows "tailoring_jobs (fst (tailor_resume request task_id now s)) task_id
     = Some \<lparr>tb_resume_id = resume_id request,
             job_descriptions = req_job_descriptions request,
             tb_status = Pending,
             individual_jobs = map (\<lambda>(i, job_desc). new_subjob i job_desc)
                                 (enumerate 0 (req_job_descriptions request)),
             tb_error_message = None,
             created_at = now\<rparr>"
  using assms by (auto simp: tailor_resume_def split: if_splits option.splits)

lemma new_subjobs_nth:
  assumes "i < length jds"
  shows "map (\<lambda>(i, job_desc). new_subjob i job_desc) (enumerate 0 jds) ! i = new_subjob i (jds ! i)"
  using assms by (simp add: nth_enumerate_eq)

text \<open>
  C3. When the submit operation accepts a request with \<open>N\<close> job descriptions, the batch it
  creates has exactly \<open>N\<close> subjobs, the one at position \<open>i\<close> being the new record built
  from the \<open>i\<close>-th job description with index \<open>i\<close>; and in every state reached from there
  by any sequence of operations (requests, background extractions, the blocks of the
  tailoring workers in any interleaving) the batch still has its \<open>N\<close> job descriptions
  and exactly \<open>N\<close> subjobs, the one at position \<open>i\<close> with index \<open>i\<close> and the title and
  company it was created with: no subjob is added, removed or moved.
\<close>

theorem subjob_count_invariant:
  assumes accepted: "snd (tailor_resume request task_id now s) = Inr response"
    and reached: "run py_str evs (fst (tailor_resume request task_id now s)) = Some s'"
  shows "\<exists>b0 b. tailoring_jobs (fst (tailor_resume request task_id now s)) task_id = Some b0
     \<and> length (individual_jobs b0) = length (req_job_descriptions request)
     \<and> (\<forall>i < length (req_job_descriptions request).
           individual_jobs b0 ! i = new_subjob i (req_job_descriptions request ! i))
     \<and> tailoring_jobs s' task_id = Some b
     \<and> job_descriptions b = req_job_descriptions request
     \<and> length (individual_jobs b) = length (req_job_descriptions request)
     \<and> (\<forall>i < length (req_job_descriptions request).
           job_index (individual_jobs b ! i) = i
           \<and> job_title (individual_jobs b ! i)
               = dget (req_job_descriptions request ! i) ''title'' ''Unknown Title''
           \<and> company (individual_jobs b ! i)
               = dget (req_job_descriptions request ! i) ''company'' ''Unknown Company'')"
proof -
  let ?jds = "req_job_descriptions request"
  let ?s0 = "fst (tailor_resume request task_id now s)"
  let ?jobs0 = "map (\<lambda>(i, job_desc). new_subjob i job_desc) (enumerate 0 ?jds)"
  let ?b0 = "\<lparr>tb_resume_id = resume_id request, job_descriptions = ?jds,
              tb_status = Pending, individual_jobs = ?jobs0,
              tb_error_message = None, created_at = now\<rparr>"
  let ?h = "\<lambda>job. (job_index job, job_title job, company job)"
  have b0: "tailoring_jobs ?s0 task_id = Some ?b0" by (rule tailor_resume_accepted [OF accepted])
  have len0: "length (individual_jobs ?b0) = length ?jds" by simp
  have nth0: "\<forall>i < length ?jds. individual_jobs ?b0 ! i = new_subjob i (?jds ! i)"
    using new_subjobs_nth by simp
  from b0 have "shapes ?s0 task_id = Some (batch_shape ?b0)" by (simp add: shapes_def)
  from run_keeps [OF reached this] obtain b where
    b: "tailoring_jobs s' task_id = Some b" and same: "batch_shape b = batch_shape ?b0"
    by (auto simp: shapes_def)
  from same have jds: "job_descriptions b = ?jds"
    and ids: "map ?h (individual_jobs b) = map ?h ?jobs0"
    by (simp_all add: batch_shape_def)
  from ids have "length (map ?h (individual_jobs b)) = length (map ?h ?jobs0)" by simp
  then have len: "length (individual_jobs b) = length ?jds" by simp
  have nth: "\<forall>i < length ?jds.
           job_index (individual_jobs b ! i) = i
           \<and> job_title (individual_jobs b ! i) = dget (?jds ! i) ''title'' ''Unknown Title''
           \<and> company (individual_jobs b ! i) = dget (?jds ! i) ''company'' ''Unknown Company''"
  proof (intro allI impI)
    fix i assume i: "i < length ?jds"
    with len have "?h (individual_jobs b ! i) = map ?h (individual_jobs b) ! i" by simp
    also have "\<dots> = map ?h ?jobs0 ! i" using ids by simp
    also have "\<dots> = ?h (?jobs0 ! i)" using i by simp
    also have "\<dots> = ?h (new_subjob i (?jds ! i))" using new_subjobs_nth [OF i] by simp
    finally show "job_index (individual_jobs b ! i) = i
           \<and> job_title (individual_jobs b ! i) = dget (?jds ! i) ''title'' ''Unknown Title''
           \<and> company (individual_jobs b ! i) = dget (?jds ! i) ''company'' ''Unknown Company''"
      by (simp add: new_subjob_def)
  qed
  from b0 len0 nth0 b jds len nth show ?thesis
    by (intro exI [of _ ?b0] exI [of _ b] conjI) assumption+
qed

theorem subjob_count_invariant_witness:
  "snd (tailor_resume example_request ''t1'' ''now'' example_completed)
     = Inr (TailorResponse ''t1'' ''Resume tailoring started'' Processing)
   \<and> (\<exists>s' b. run (\<lambda>v. []) [GetTailoringStatus ''t1'', WorkerRun ''t1'' example_env,
                           GetTailoringStatus ''t1'']
                  (fst (tailor_resume example_request ''t1'' ''now'' example_completed))
                = Some s'
         \<and> tailoring_jobs s' ''t1'' = Some b
         \<and> length (individual_jobs b) = 2
         \<and> map job_index (individual_jobs b) = [0, 1]
         \<and> map job_title (individual_jobs b) = [''A'', ''B'']
         \<and> map company (individual_jobs b) = [''X'', ''Y''])"
proof -
  let ?s0 = "fst (tailor_resume example_request ''t1'' ''now'' example_completed)"
  let ?s1 = "fst (perform_tailoring ''t1'' example_env example_submitted)"
  let ?evs = "[GetTailoringStatus ''t1'', WorkerRun ''t1'' example_env, GetTailoringStatus ''t1'']"
  have acc: "snd (tailor_resume example_request ''t1'' ''now'' example_completed)
      = Inr (TailorResponse ''t1'' ''Resume tailoring started'' Processing)"
    by (simp add: tailor_resume_def example_request_def example_completed_def
          example_state_simps example_data_def)
  have q: "\<And>s. fst (get_tailoring_status ''t1'' s) = s"
    by (simp add: get_tailoring_status_def Let_def split: option.splits)
  have "run (\<lambda>v. []) ?evs example_submitted = Some ?s1"
    by (simp add: q example_submitted_batch)
  then have r: "run (\<lambda>v. []) ?evs ?s0 = Some ?s1" by (simp only: example_submitted_def)
  from subjob_count_invariant [OF acc r] obtain b where
    b: "tailoring_jobs ?s1 ''t1'' = Some b"
    and len: "length (individual_jobs b) = length (req_job_descriptions example_request)"
    and nth: "\<forall>i < length (req_job_descriptions example_request).
           job_index (individual_jobs b ! i) = i
           \<and> job_title (individual_jobs b ! i)
               = dget (req_job_descriptions example_request ! i) ''title'' ''Unknown Title''
           \<and> company (individual_jobs b ! i)
               = dget (req_job_descriptions example_request ! i) ''company'' ''Unknown Company''"
    by (elim exE conjE) (rule that, assumption+)
  from len have l2: "length (individual_jobs b) = 2" by (simp add: example_request_def)
  then have shape: "individual_jobs b = [individual_jobs b ! 0, individual_jobs b ! 1]"
    by (rule two_element_list)
  have in0: "0 < length (req_job_descriptions example_request)"
    and in1: "1 < length (req_job_descriptions example_request)"
    by (simp_all add: example_request_def)
  from nth [rule_format, OF in0]
  have j0: "job_index (individual_jobs b ! 0) = 0" "job_title (individual_jobs b ! 0) = ''A''"
    "company (individual_jobs b ! 0) = ''X''"
    by (simp_all add: example_request_def dget_def)
  from nth [rule_format, OF in1]
  have j1: "job_index (individual_jobs b ! 1) = 1" "job_title (individual_jobs b ! 1) = ''B''"
    "company (individual_jobs b ! 1) = ''Y''"
    by (simp_all add: example_request_def dget_def)
  have "map job_index [individual_jobs b ! 0, individual_jobs b ! 1] = [0, 1]"
    "map job_title [individual_jobs b ! 0, individual_jobs b ! 1] = [''A'', ''B'']"
    "map company [individual_jobs b ! 0, individual_jobs b ! 1] = [''X'', ''Y'']"
    using j0 j1 by simp_all
  with shape have maps: "map job_index (individual_jobs b) = [0, 1]"
    "map job_title (individual_jobs b) = [''A'', ''B'']"
    "map company (individual_jobs b) = [''X'', ''Y'']"
    by simp_all
  from r b l2 maps
  have "\<exists>s' b. run (\<lambda>v. []) ?evs ?s0 = Some s'
         \<and> tailoring_jobs s' ''t1'' = Some b
         \<and> length (individual_jobs b) = 2
         \<and> map job_index (individual_jobs b) = [0, 1]
         \<and> map job_title (individual_jobs b) = [''A'', ''B'']
         \<and> map company (individual_jobs b) = [''X'', ''Y'']"
    by (intro exI [of _ ?s1] exI [of _ b] conjI) assumption+
  with acc show ?thesis by (intro conjI) assumption+
qed

end
